theory Spec2Isabelle
  imports Complex_Main "HOL-Library.Sublist" "HOL-Library.AList"
begin

section \<open>JavaScript values and strings\<close>

text \<open>
  The server is JavaScript. Strings are modelled as \<open>string\<close> (one \<open>char\<close> per code
  unit; contract function names and TRON base58 addresses are ASCII). Values that cross
  the backend boundary are JSON values; an object is an association list of its own
  enumerable properties, and the numbers that occur (energy, SUN amounts, fee limits) are
  integers.
\<close>

datatype json =
    JNull
  | JBool bool
  | JNum int
  | JStr string
  | JArr "json list"
  | JObj "(string \<times> json) list"

text \<open>JavaScript truthiness (\<open>if (v)\<close>, \<open>v || d\<close>) on JSON values.\<close>

fun truthy :: "json \<Rightarrow> bool" where
  "truthy JNull = False"
| "truthy (JBool b) = b"
| "truthy (JNum n) = (n \<noteq> 0)"
| "truthy (JStr s) = (s \<noteq> [])"
| "truthy (JArr _) = True"
| "truthy (JObj _) = True"

text \<open>\<open>String.prototype.toLowerCase\<close> on ASCII: the letters A to Z are mapped, every other
  code unit is kept.\<close>

definition toLowerChar :: "char \<Rightarrow> char" where
  "toLowerChar c =
     (case map_of (zip ''ABCDEFGHIJKLMNOPQRSTUVWXYZ'' ''abcdefghijklmnopqrstuvwxyz'') c of
        Some d \<Rightarrow> d
      | None \<Rightarrow> c)"

definition toLowerCase :: "string \<Rightarrow> string" where
  "toLowerCase s = map toLowerChar s"

text \<open>\<open>s.includes(pat)\<close>: \<open>pat\<close> occurs in \<open>s\<close> as a contiguous substring.\<close>

fun str_includes :: "string \<Rightarrow> string \<Rightarrow> bool" where
  "str_includes [] pat = (pat = [])"
| "str_includes (c # cs) pat = (prefix pat (c # cs) \<or> str_includes cs pat)"

text \<open>\<open>Array.prototype.join\<close> with a separator.\<close>

fun join :: "string \<Rightarrow> string list \<Rightarrow> string" where
  "join sep [] = []"
| "join sep [x] = x"
| "join sep (x # y # ys) = x @ sep @ join sep (y # ys)"

section \<open>Energy heuristics: \<open>getFallbackEnergyEstimate\<close> (src/index.js)\<close>

definition USDT_CONTRACT :: string where
  "USDT_CONTRACT = ''TR7NHqjeKQxGTCi8q8ZY4pL8otSzgjLj6t''"

definition NEW_ADDRESS :: string where
  "NEW_ADDRESS = ''TSLbRevWFn3hktZmfDrzRbDLfEA6RQjNwK''"

definition EXISTING_ADDRESS :: string where
  "EXISTING_ADDRESS = ''TAHT3rrriD23a6AXmaM2YJRRvTYusKGVwD''"

text \<open>
  \<open>getFallbackEnergyEstimate(functionName, parameters, contractAddress, toAddress = null)\<close>.
  Only the length of \<open>parameters\<close> is read. \<open>toAddress\<close> is whatever the caller took
  from \<open>parameters[0]\<close>, or \<open>null\<close>.
\<close>

definition getFallbackEnergyEstimate :: "string \<Rightarrow> json list \<Rightarrow> string \<Rightarrow> json \<Rightarrow> int" where
  "getFallbackEnergyEstimate functionName parameters contractAddress toAddress =
     (let functionLower = toLowerCase functionName in
      if contractAddress = USDT_CONTRACT \<and> functionLower = ''transfer'' then
        (if truthy toAddress \<and> toAddress = JStr NEW_ADDRESS then 28000
         else if truthy toAddress \<and> toAddress = JStr EXISTING_ADDRESS then 13940
         else 13940)
      else if contractAddress = USDT_CONTRACT \<and> functionLower = ''approve'' then 13180
      else if contractAddress = USDT_CONTRACT \<and> functionLower = ''transferfrom'' then 18190
      else if contractAddress = USDT_CONTRACT \<and> functionLower = ''balanceof'' then 680
      else if str_includes functionLower ''transfer'' \<or> str_includes functionLower ''send'' then 14010
      else if str_includes functionLower ''approve'' \<or> str_includes functionLower ''allowance'' then 10000
      else if str_includes functionLower ''swap'' \<or> str_includes functionLower ''exchange'' then 50000
      else if str_includes functionLower ''mint'' \<or> str_includes functionLower ''burn'' then 30000
      else if str_includes functionLower ''view'' \<or> str_includes functionLower ''get''
              \<or> str_includes functionLower ''balance'' then 1000
      else 20000 + int (length parameters) * 5000)"

subsection \<open>The estimate as the specification describes it\<close>

text \<open>
  The specification's three stages, written from its words: a lookup keyed by a known
  contract address with a constant per function (for a transfer, by recipient), then
  substring patterns on the function name, then a base constant plus an increment per
  parameter. These are compared with \<open>getFallbackEnergyEstimate\<close> below.
\<close>

definition known_contract_estimate :: "string \<Rightarrow> string \<Rightarrow> json \<Rightarrow> int option" where
  "known_contract_estimate contractAddress functionLower recipient =
     (if contractAddress \<noteq> USDT_CONTRACT then None
      else if functionLower = ''transfer''
        then Some (if recipient = JStr NEW_ADDRESS then 28000 else 13940)
      else map_of [(''approve'', 13180), (''transferfrom'', 18190), (''balanceof'', 680)]
             functionLower)"

definition pattern_table :: "(string list \<times> int) list" where
  "pattern_table =
     [([''transfer'', ''send''], 14010),
      ([''approve'', ''allowance''], 10000),
      ([''swap'', ''exchange''], 50000),
      ([''mint'', ''burn''], 30000),
      ([''view'', ''get'', ''balance''], 1000)]"

definition pattern_estimate :: "string \<Rightarrow> int option" where
  "pattern_estimate functionLower =
     map_option snd (find (\<lambda>row. list_ex (str_includes functionLower) (fst row)) pattern_table)"

definition fallbackEstimate_spec :: "string \<Rightarrow> json list \<Rightarrow> string \<Rightarrow> json \<Rightarrow> int" where
  "fallbackEstimate_spec functionName parameters contractAddress recipient =
     (case known_contract_estimate contractAddress (toLowerCase functionName) recipient of
        Some n \<Rightarrow> n
      | None \<Rightarrow>
          (case pattern_estimate (toLowerCase functionName) of
             Some n \<Rightarrow> n
           | None \<Rightarrow> 20000 + 5000 * int (length parameters)))"

section \<open>Source router: \<open>checkNodeAvailability\<close> and \<open>executeWithFallback\<close> (src/index.js)\<close>

text \<open>
  A candidate is an async thunk. What the router sees of it is whether the awaited call
  returns a value or throws; that outcome is the model of the thunk. \<open>Throws m\<close> is a
  call that throws a value \<open>error\<close> for which \<open>${error.message}\<close> reads \<open>m\<close>: the message
  of an \<open>Error\<close>, and the text \<open>undefined\<close> for a thrown string, which has no such
  property. A candidate that is not supplied is \<open>None\<close>.
\<close>

datatype 'a outcome = Throws string | Returns 'a

text \<open>
  The \<open>message\<close> of \<open>new McpError(ErrorCode.InternalError, message)\<close>: the protocol
  library puts the error code in front of its argument. A \<open>catch\<close> that wraps such an
  error reads this text.
\<close>

definition McpError_message :: "string \<Rightarrow> string" where
  "McpError_message message = ''MCP error -32603: '' @ message"

datatype backend = TronWeb | TronGrid | TronScan

record operation =
  tronweb :: "json outcome option"
  trongrid :: "json outcome option"
  tronscan :: "json outcome option"

text \<open>
  The probe \<open>await this.tronWeb.trx.getCurrentBlock()\<close> either returns after
  \<open>responseTime\<close> milliseconds or throws.
\<close>

datatype probe = ProbeReturns nat | ProbeThrows string

text \<open>
  \<open>this.nodeAvailable\<close>: \<open>None\<close> is \<open>null\<close> (not tested). The function returns the value
  reported to the caller and the flag it leaves behind.
\<close>

definition checkNodeAvailability :: "bool option \<Rightarrow> probe \<Rightarrow> bool \<times> bool option" where
  "checkNodeAvailability nodeAvailable pr =
     (case nodeAvailable of
        Some cached \<Rightarrow> (cached, Some cached)
      | None \<Rightarrow>
          (case pr of
             ProbeReturns responseTime \<Rightarrow> (responseTime < 5000, Some (responseTime < 5000))
           | ProbeThrows _ \<Rightarrow> (False, Some False)))"

text \<open>Decimal rendering of an array index, for the property names of a spread.\<close>

function string_of_nat :: "nat \<Rightarrow> string" where
  "string_of_nat n =
     (if n < 10 then [''0123456789'' ! n]
      else string_of_nat (n div 10) @ [''0123456789'' ! (n mod 10)])"
  by pat_completeness auto
termination
  by (relation "measure id") auto

declare string_of_nat.simps [simp del]

text \<open>
  \<open>{ ...result }\<close>: the own enumerable properties of the value. Objects give their
  properties, arrays and strings their indexed elements, other values nothing.
\<close>

fun spread :: "json \<Rightarrow> (string \<times> json) list" where
  "spread (JObj kvs) = kvs"
| "spread (JArr xs) = zip (map string_of_nat [0..<length xs]) xs"
| "spread (JStr s) = zip (map string_of_nat [0..<length s]) (map (\<lambda>c. JStr [c]) s)"
| "spread _ = []"

text \<open>\<open>{ ...result, source: tag }\<close>: a \<open>source\<close> property of the result is overwritten.\<close>

definition with_source :: "json \<Rightarrow> string \<Rightarrow> json" where
  "with_source result tag = JObj (AList.update ''source'' (JStr tag) (spread result))"

definition get_field :: "string \<Rightarrow> json \<Rightarrow> json option" where
  "get_field k v = (case v of JObj kvs \<Rightarrow> map_of kvs k | _ \<Rightarrow> None)"

text \<open>
  What one \<open>executeWithFallback\<close> call leaves behind: the value returned or the message
  given to \<open>new McpError(ErrorCode.InternalError, ...)\<close>; the candidates whose thunk was
  invoked, in order; the local \<open>sources\<close> array at exit; and \<open>this.nodeAvailable\<close>.
\<close>

record exec =
  response :: "json outcome"
  attempts :: "backend list"
  recorded :: "string list"
  flag :: "bool option"

text \<open>
  The message of the \<open>TypeError\<close> raised by \<open>operation.tronweb()\<close> when the map has no
  \<open>tronweb\<close> property.
\<close>

definition NOT_A_FUNCTION :: string where
  "NOT_A_FUNCTION = ''operation.tronweb is not a function''"

text \<open>
  The two fallback blocks of the source (the \<open>if (!nodeAvailable)\<close> branch and the
  \<open>catch (nodeError)\<close> branch) are the same code up to the words of the aggregate message
  and the error thrown when no explorer candidate is supplied; \<open>fallbacks\<close> is that block.
  It returns the value returned or the message of the error thrown, the thunks invoked and
  the \<open>sources\<close> array.
\<close>

definition lastResort ::
    "operation \<Rightarrow> string list \<Rightarrow> backend list \<Rightarrow> string \<Rightarrow> string
      \<Rightarrow> json outcome \<times> backend list \<times> string list" where
  "lastResort operation sources calls allFailed otherwise =
     (case tronscan operation of
        Some (Returns result) \<Rightarrow>
          (Returns (with_source result ''tronscan_api''), calls @ [TronScan], sources)
      | Some (Throws tronscanError) \<Rightarrow>
          (let sources' = sources @ [''TronScan: '' @ tronscanError]
           in (Throws (allFailed @ join '', '' sources'), calls @ [TronScan], sources'))
      | None \<Rightarrow> (Throws otherwise, calls, sources))"

definition fallbacks ::
    "operation \<Rightarrow> string list \<Rightarrow> string \<Rightarrow> string
      \<Rightarrow> json outcome \<times> backend list \<times> string list" where
  "fallbacks operation sources allFailed otherwise =
     (case trongrid operation of
        Some (Returns result) \<Rightarrow>
          (Returns (with_source result ''trongrid_api''), [TronGrid], sources)
      | Some (Throws trongridError) \<Rightarrow>
          lastResort operation (sources @ [''TronGrid: '' @ trongridError]) [TronGrid]
            allFailed otherwise
      | None \<Rightarrow> lastResort operation sources [] allFailed otherwise)"

text \<open>The outer \<open>catch\<close>: every error leaves as an \<open>McpError\<close> with the operation's name.\<close>

definition rethrow :: "string \<Rightarrow> json outcome \<Rightarrow> json outcome" where
  "rethrow operationName r =
     (case r of
        Throws message \<Rightarrow> Throws (operationName @ '' failed: '' @ message)
      | Returns v \<Rightarrow> Returns v)"

text \<open>The branch taken when \<open>checkNodeAvailability\<close> reported \<open>false\<close>.\<close>

definition skipNode :: "bool option \<Rightarrow> operation \<Rightarrow> string \<Rightarrow> exec" where
  "skipNode fl operation operationName =
     (case fallbacks operation []
             (''All API sources failed for '' @ operationName @ '': '')
             (''No fallback sources available for '' @ operationName) of
        (r, calls, sources) \<Rightarrow>
          \<lparr>response = rethrow operationName r, attempts = calls, recorded = sources,
           flag = fl\<rparr>)"

text \<open>
  The continuation of \<open>await operation.tronweb()\<close>, given how that call ended and whether
  a thunk ran at all.
\<close>

definition afterNode ::
    "bool option \<Rightarrow> operation \<Rightarrow> string \<Rightarrow> json outcome \<Rightarrow> backend list \<Rightarrow> exec" where
  "afterNode fl operation operationName nodeOutcome calls0 =
     (case nodeOutcome of
        Returns result \<Rightarrow>
          \<lparr>response = Returns (with_source result ''tronweb_node''), attempts = calls0,
           recorded = [], flag = fl\<rparr>
      | Throws nodeError \<Rightarrow>
          (case fallbacks operation [''TronWeb: '' @ nodeError]
                  (''All sources failed for '' @ operationName @ '': '') nodeError of
             (r, calls, sources) \<Rightarrow>
               \<lparr>response = rethrow operationName r, attempts = calls0 @ calls,
                recorded = sources, flag = Some False\<rparr>))"

text \<open>Invoking \<open>operation.tronweb()\<close>: a missing property is a \<open>TypeError\<close>, and no thunk runs.\<close>

definition callNode :: "operation \<Rightarrow> json outcome \<times> backend list" where
  "callNode operation =
     (case tronweb operation of
        Some r \<Rightarrow> (r, [TronWeb])
      | None \<Rightarrow> (Throws NOT_A_FUNCTION, []))"

definition executeWithFallback :: "bool option \<Rightarrow> probe \<Rightarrow> operation \<Rightarrow> string \<Rightarrow> exec" where
  "executeWithFallback nodeAvailable pr operation operationName =
     (case checkNodeAvailability nodeAvailable pr of
        (available, fl) \<Rightarrow>
          if \<not> available then skipNode fl operation operationName
          else (case callNode operation of
                  (nodeOutcome, calls0) \<Rightarrow>
                    afterNode fl operation operationName nodeOutcome calls0))"

subsection \<open>A process lifetime of calls that do not overlap\<close>

text \<open>
  Calls made one after the other: each starts from the flag its predecessor left. A call
  is its probe outcome (used only if the probe is issued), its candidate map and its name.
\<close>

type_synonym call = "probe \<times> operation \<times> string"

fun executeAll :: "bool option \<Rightarrow> call list \<Rightarrow> exec list" where
  "executeAll nodeAvailable [] = []"
| "executeAll nodeAvailable ((pr, operation, operationName) # rest) =
     (let e = executeWithFallback nodeAvailable pr operation operationName
      in e # executeAll (flag e) rest)"

subsection \<open>Calls in flight at the same time\<close>

text \<open>
  The server handles tool requests as concurrent async calls on one thread: a call runs
  until its next \<open>await\<close> of a backend and is resumed when that backend answers, and
  other calls run in between. The points at which a call of \<open>executeWithFallback\<close>
  reads or writes \<open>this.nodeAvailable\<close> are: its entry into \<open>checkNodeAvailability\<close>
  (read), the resumption after \<open>await this.tronWeb.trx.getCurrentBlock()\<close> (write), and
  the resumption after \<open>await operation.tronweb()\<close> (write on failure). The awaits of
  the gateway and explorer thunks touch no shared state and are folded into the step that
  reaches them.
\<close>

datatype phase = Entry | AwaitProbe | AwaitNode | Done exec

text \<open>What follows once \<open>checkNodeAvailability\<close> has returned \<open>available\<close>.\<close>

definition enter :: "bool option \<Rightarrow> bool \<Rightarrow> call \<Rightarrow> bool option \<times> phase" where
  "enter fl available c =
     (case c of (pr, operation, operationName) \<Rightarrow>
        if \<not> available then (fl, Done (skipNode fl operation operationName))
        else (case tronweb operation of
                Some _ \<Rightarrow> (fl, AwaitNode)
              | None \<Rightarrow>
                  (let e = afterNode fl operation operationName (Throws NOT_A_FUNCTION) []
                   in (flag e, Done e))))"

text \<open>One call runs from where it is suspended to its next suspension.\<close>

definition resume :: "bool option \<Rightarrow> call \<Rightarrow> phase \<Rightarrow> bool option \<times> phase" where
  "resume fl c ph =
     (case c of (pr, operation, operationName) \<Rightarrow>
       (case ph of
          Entry \<Rightarrow>
            (case fl of
               Some cached \<Rightarrow> enter fl cached c
             | None \<Rightarrow> (fl, AwaitProbe))
        | AwaitProbe \<Rightarrow>
            (case pr of
               ProbeReturns responseTime \<Rightarrow>
                 enter (Some (responseTime < 5000)) (responseTime < 5000) c
             | ProbeThrows _ \<Rightarrow> enter (Some False) False c)
        | AwaitNode \<Rightarrow>
            (case tronweb operation of
               Some nodeOutcome \<Rightarrow>
                 (let e = afterNode fl operation operationName nodeOutcome [TronWeb]
                  in (flag e, Done e))
             | None \<Rightarrow> (fl, AwaitNode))
        | Done e \<Rightarrow> (fl, Done e)))"

text \<open>
  A schedule names, step by step, the call that is resumed next. The process state is the
  flag and the calls with their phases.
\<close>

fun run :: "nat list \<Rightarrow> bool option \<times> (call \<times> phase) list \<Rightarrow> bool option \<times> (call \<times> phase) list" where
  "run [] st = st"
| "run (i # sched) (fl, tasks) =
     (if i < length tasks then
        (case tasks ! i of (c, ph) \<Rightarrow>
           (case resume fl c ph of (fl', ph') \<Rightarrow>
              run sched (fl', tasks[i := (c, ph')])))
      else run sched (fl, tasks))"

text \<open>
  A call that is at its entry or has ended without invoking its primary thunk.
\<close>

fun skips_primary :: "phase \<Rightarrow> bool" where
  "skips_primary Entry = True"
| "skips_primary (Done e) = (TronWeb \<notin> set (attempts e))"
| "skips_primary _ = False"

text \<open>
  Three requests at the start of the process, while the flag is still \<open>null\<close>: an energy
  estimate whose primary thunk throws, and two reads whose primary thunk returns. The
  node answers every probe within 41 ms.
\<close>

definition estimate_call :: call where
  "estimate_call =
     (ProbeReturns 40,
      \<lparr>tronweb = Some (Throws ''Energy estimator not initialized''),
       trongrid = Some (Returns (JObj [(''recommended'', JNum 13940)])),
       tronscan = Some (Returns (JObj [(''recommended'', JNum 13940)]))\<rparr>,
      ''estimateContractEnergy'')"

definition parameters_call :: call where
  "parameters_call =
     (ProbeReturns 41,
      \<lparr>tronweb = Some (Returns (JObj [(''chainParameter'', JArr [])])),
       trongrid = Some (Returns (JObj [(''chainParameter'', JArr [])])),
       tronscan = Some (Returns (JObj [(''chainParameter'', JArr [])]))\<rparr>,
      ''getChainParameters'')"

definition prices_call :: call where
  "prices_call =
     (ProbeReturns 41,
      \<lparr>tronweb = Some (Returns (JObj [(''energy_price_sun'', JNum 210)])),
       trongrid = Some (Returns (JObj [(''energy_price_sun'', JNum 210)])),
       tronscan = Some (Returns (JObj [(''energy_price_sun'', JNum 210)]))\<rparr>,
      ''getEnergyPrices'')"

definition startup :: "bool option \<times> (call \<times> phase) list" where
  "startup = (None, [(estimate_call, Entry), (parameters_call, Entry), (prices_call, Entry)])"

text \<open>
  The same start with, in place of the estimate, a read whose candidate map has no
  \<open>tronweb\<close> thunk.
\<close>

definition block_call :: call where
  "block_call =
     (ProbeReturns 40,
      \<lparr>tronweb = None,
       trongrid = Some (Returns (JObj [(''blockID'', JStr ''0000'')])),
       tronscan = None\<rparr>,
      ''getBlock'')"

definition overlap :: "bool option \<times> (call \<times> phase) list" where
  "overlap = (None, [(block_call, Entry), (parameters_call, Entry), (prices_call, Entry)])"

section \<open>Balance query: \<open>AccountModule.getBalance\<close> (account module)\<close>

text \<open>
  \<open>this.tronWeb.fromSun(sun)\<close> of the client library (\<open>tronweb\<close> 5.3, a dependency of
  the server): \<open>toBigNumber(sun).div(1_000_000).toString(10)\<close>, the decimal numeral of the
  exact quotient, with no fraction part when there is none and no trailing zero. The
  result is a string.
\<close>

definition strip_zeros :: "string \<Rightarrow> string" where
  "strip_zeros ds = rev (dropWhile (\<lambda>c. c = CHR ''0'') (rev ds))"

definition trx_numeral :: "nat \<Rightarrow> string" where
  "trx_numeral n =
     (let digits = string_of_nat (n mod 1000000)
      in string_of_nat (n div 1000000)
         @ (if n mod 1000000 = 0 then []
            else ''.'' @ strip_zeros (replicate (6 - length digits) CHR ''0'' @ digits)))"

definition fromSun :: "int \<Rightarrow> string" where
  "fromSun sun = (if sun < 0 then ''-'' else []) @ trx_numeral (nat \<bar>sun\<bar>)"

text \<open>
  The three backends as \<open>getBalance\<close> uses them, each applied to the address it is
  given. \<open>node_getBalance\<close> is \<open>await this.tronWeb.trx.getBalance(address)\<close>, the raw
  balance in SUN. \<open>grid_getaccount\<close> and \<open>scan_account\<close> are the API call followed by
  \<open>JSON.parse(result.content[0].text).result\<close>, reduced to the \<open>balance\<close> property of the
  account data (an integer, absent for an account that holds nothing). \<open>to_double\<close>
  rounds the exact quotient of \<open>balance / 1000000\<close> to the JavaScript number that the
  division yields.
\<close>

record balance_backends =
  node_getBalance :: "string \<Rightarrow> int outcome"
  grid_getaccount :: "string \<Rightarrow> int option outcome"
  scan_account :: "string \<Rightarrow> int option outcome"
  to_double :: "real \<Rightarrow> real"

text \<open>
  The \<open>balance\<close> property of a reply is a string on one path and a number on the others;
  \<open>JSON.stringify\<close> writes the first in quotes.
\<close>

datatype amount = Text string | Number real

record balance_reply =
  address :: string
  balance :: amount
  unit :: string
  balanceInSun :: int
  source :: string

text \<open>\<open>accountData.balance || 0\<close>\<close>

definition balance_or_zero :: "int option \<Rightarrow> int" where
  "balance_or_zero b = (case b of Some n \<Rightarrow> n | None \<Rightarrow> 0)"

text \<open>
  \<open>getBalance({ address })\<close>: the reply or the argument of the \<open>McpError\<close> thrown, and the
  backends asked.
\<close>

definition getBalance :: "balance_backends \<Rightarrow> string \<Rightarrow> balance_reply outcome \<times> backend list" where
  "getBalance env addr =
     (case node_getBalance env addr of
        Returns bal \<Rightarrow>
          (Returns \<lparr>address = addr, balance = Text (fromSun bal), unit = ''TRX'',
                    balanceInSun = bal, source = ''tronweb_node''\<rparr>,
           [TronWeb])
      | Throws nodeError \<Rightarrow>
          (case grid_getaccount env addr of
             Returns accountData \<Rightarrow>
               (let bal = balance_or_zero accountData
                in (Returns \<lparr>address = addr,
                             balance = Number (to_double env (real_of_int bal / 1000000)),
                             unit = ''TRX'', balanceInSun = bal, source = ''trongrid_api''\<rparr>,
                    [TronWeb, TronGrid]))
           | Throws trongridError \<Rightarrow>
               (case scan_account env addr of
                  Returns accountData \<Rightarrow>
                    (let bal = balance_or_zero accountData
                     in (Returns \<lparr>address = addr,
                                  balance = Number (to_double env (real_of_int bal / 1000000)),
                                  unit = ''TRX'', balanceInSun = bal,
                                  source = ''tronscan_api''\<rparr>,
                         [TronWeb, TronGrid, TronScan]))
                | Throws tronscanError \<Rightarrow>
                    (Throws (''Failed to get balance: All sources failed: '' @ nodeError
                             @ '', '' @ trongridError @ '', '' @ tronscanError),
                     [TronWeb, TronGrid, TronScan]))))"




text \<open>
  The shape test the server applies to a recipient before it queries with it
  (\<open>userAddress.startsWith('T') && userAddress.length === 34\<close>).
\<close>

definition address_shape :: "string \<Rightarrow> bool" where
  "address_shape a = (a \<noteq> [] \<and> hd a = CHR ''T'' \<and> length a = 34)"

text \<open>
  Backends for a query with a malformed address: the node's client rejects it with the
  string \<open>Invalid address provided\<close> (a thrown string, so that \<open>nodeError.message\<close> is
  \<open>undefined\<close>), the gateway answers with an empty account. A well-formed address holds
  1.5 TRX on the node.
\<close>

definition lenient_backends :: balance_backends where
  "lenient_backends =
     \<lparr>node_getBalance = (\<lambda>a. if address_shape a then Returns 1500000
                               else Throws ''undefined''),
      grid_getaccount = (\<lambda>a. Returns None),
      scan_account = (\<lambda>a. Returns None),
      to_double = (\<lambda>x. x)\<rparr>"

section \<open>Energy estimation on the node: \<open>EnergyEstimator\<close> (energy estimator module)\<close>

text \<open>
  A contract object as the estimator uses it: the names \<open>n\<close> for which
  \<open>contract[n]\<close> is truthy, each either a method of the contract's ABI (calling it gives
  an object with \<open>send\<close>) or some other property, its own or inherited such as
  \<open>toString\<close>.
\<close>

datatype property = Method | Other

type_synonym contract = "(string \<times> property) list"

text \<open>
  The estimator's collaborators. \<open>isAddress\<close> is \<open>this.tronWeb.isAddress\<close>;
  \<open>defaultAddress\<close> is \<open>this.tronWeb.defaultAddress.base58\<close> (\<open>None\<close> when unset);
  \<open>contractCache\<close> is \<open>this.contractCache\<close>; \<open>contract_at\<close> is
  \<open>await this.tronWeb.contract().at(address)\<close>; \<open>send\<close> is
  \<open>await contract[functionName](...parameters).send(...)\<close> on a method, and
  \<open>not_a_method\<close> the message of the \<open>TypeError\<close> that expression raises on another
  property. The last four are the backend calls of \<open>performEnergyEstimation\<close>, each
  given the contract address, the function name, the parameters and the caller:
  \<open>this.tronWeb.trx.triggerConstantContract\<close>,
  \<open>this.tronWeb.transactionBuilder.estimateEnergy\<close> (for a USDT transfer on the
  contract's \<open>transfer\<close>), and the estimator's own \<open>estimateEnergyViaRPC\<close> and
  \<open>getHistoricalEnergyUsage\<close>, which catch their errors and return \<open>null\<close> instead.
\<close>

datatype netcall = ContractAt | SendTransaction | PerformEstimation

record estimator =
  isAddress :: "string \<Rightarrow> bool"
  defaultAddress :: "string option"
  contractCache :: "(string \<times> contract) list"
  contract_at :: "string \<Rightarrow> contract outcome"
  send :: "string \<Rightarrow> string \<Rightarrow> json list \<Rightarrow> json outcome"
  not_a_method :: "string \<Rightarrow> string"
  triggerConstantContract :: "string \<Rightarrow> string \<Rightarrow> json list \<Rightarrow> string \<Rightarrow> json outcome"
  estimateEnergy :: "string \<Rightarrow> string \<Rightarrow> json list \<Rightarrow> string \<Rightarrow> json outcome"
  estimateEnergyViaRPC :: "string \<Rightarrow> string \<Rightarrow> json list \<Rightarrow> string \<Rightarrow> json"
  getHistoricalEnergyUsage :: "string \<Rightarrow> string \<Rightarrow> json"

text \<open>
  An optional string argument: \<open>None\<close> is \<open>undefined\<close>, \<open>null\<close> or \<open>false\<close>. It is
  truthy when it is a non-empty string; \<open>a || d\<close> is \<open>a\<close> when \<open>a\<close> is truthy and \<open>d\<close>
  otherwise (an absent \<open>d\<close> being as falsy as the empty string).
\<close>

definition provided :: "string option \<Rightarrow> bool" where
  "provided a = (case a of Some x \<Rightarrow> x \<noteq> [] | None \<Rightarrow> False)"

definition or_default :: "string option \<Rightarrow> string \<Rightarrow> string" where
  "or_default a d = (case a of Some x \<Rightarrow> (if x = [] then d else x) | None \<Rightarrow> d)"

text \<open>\<open>a || b || c\<close> on the properties of the estimations object.\<close>

definition first_truthy :: "json option list \<Rightarrow> json option" where
  "first_truthy vs =
     (case filter (\<lambda>v. case v of Some j \<Rightarrow> truthy j | None \<Rightarrow> False) vs of
        v # _ \<Rightarrow> v
      | [] \<Rightarrow> (if vs = [] then None else last vs))"

text \<open>An object literal: a property whose value is \<open>undefined\<close> is left out.\<close>

definition obj :: "(string \<times> json option) list \<Rightarrow> json" where
  "obj kvs = JObj (List.map_filter (\<lambda>(k, v). map_option (Pair k) v) kvs)"

definition QUOTE :: string where
  "QUOTE = [CHR 0x27]"

text \<open>
  The estimator's own \<open>getFallbackEnergyEstimate(functionName, parameters,
  contractAddress)\<close>. It differs from the server's: no recipient, and a transfer with more
  than two parameters counts as the activation of a new address.
\<close>

definition estimator_getFallbackEnergyEstimate :: "string \<Rightarrow> json list \<Rightarrow> string \<Rightarrow> int" where
  "estimator_getFallbackEnergyEstimate functionName parameters contractAddress =
     (let functionLower = toLowerCase functionName in
      if contractAddress = USDT_CONTRACT \<and> functionLower = ''transfer'' then 13940
      else if contractAddress = USDT_CONTRACT \<and> functionLower = ''approve'' then 13180
      else if contractAddress = USDT_CONTRACT \<and> functionLower = ''transferfrom'' then 18190
      else if contractAddress = USDT_CONTRACT \<and> functionLower = ''balanceof'' then 680
      else if str_includes functionLower ''transfer'' \<or> str_includes functionLower ''send'' then
        (if length parameters > 2 then 31990 else 14010)
      else if str_includes functionLower ''approve'' \<or> str_includes functionLower ''allowance'' then 10000
      else if str_includes functionLower ''swap'' \<or> str_includes functionLower ''exchange'' then 50000
      else if str_includes functionLower ''mint'' \<or> str_includes functionLower ''burn'' then 30000
      else if str_includes functionLower ''view'' \<or> str_includes functionLower ''get''
              \<or> str_includes functionLower ''balance'' then 1000
      else 20000 + int (length parameters) * 5000)"

text \<open>
  \<open>result && result.k\<close> guarding an entry of the estimations: the property \<open>k\<close> of what
  the call returned, if the call returned something truthy whose \<open>k\<close> is truthy.
\<close>

definition yields :: "string \<Rightarrow> json outcome \<Rightarrow> json option" where
  "yields k r =
     (case r of
        Returns v \<Rightarrow>
          (if truthy v then
             (case get_field k v of
                Some e \<Rightarrow> (if truthy e then Some e else None)
              | None \<Rightarrow> None)
           else None)
      | Throws _ \<Rightarrow> None)"

text \<open>
  \<open>performEnergyEstimation\<close>: up to four live entries, each from a call in its own
  \<open>try\<close>, and the heuristic entry, which is always there.
\<close>

definition performEnergyEstimation ::
    "estimator \<Rightarrow> string \<Rightarrow> string \<Rightarrow> json list \<Rightarrow> string \<Rightarrow> json" where
  "performEnergyEstimation est contractAddress functionName parameters fromAddress =
     (let rpcResult = estimateEnergyViaRPC est contractAddress functionName parameters
                        fromAddress;
          historicalEstimate = getHistoricalEnergyUsage est contractAddress functionName
      in obj
        [(''triggerConstantContract'',
            map_option
              (\<lambda>energy. obj [(''energy'', Some energy),
                             (''method'', Some (JStr ''triggerConstantContract'')),
                             (''accuracy'', Some (JStr ''high''))])
              (yields ''energy_used''
                 (triggerConstantContract est contractAddress functionName parameters
                    fromAddress))),
         (''estimateEnergy'',
            map_option
              (\<lambda>energy. obj [(''energy'', Some energy),
                             (''method'', Some (JStr ''estimateEnergy'')),
                             (''accuracy'',
                                Some (JStr (if contractAddress = USDT_CONTRACT
                                               \<and> functionName = ''transfer''
                                            then ''high'' else ''medium'')))])
              (yields ''energy_required''
                 (estimateEnergy est contractAddress functionName parameters fromAddress))),
         (''rpcCall'',
            (if truthy rpcResult then
               Some (obj [(''energy'',
                             first_truthy [get_field ''energy_used'' rpcResult,
                                           get_field ''energy_required'' rpcResult]),
                          (''method'', Some (JStr ''rpcCall'')),
                          (''accuracy'', Some (JStr ''high''))])
             else None)),
         (''historical'',
            (if truthy historicalEstimate then
               Some (obj [(''energy'', get_field ''averageEnergy'' historicalEstimate),
                          (''method'', Some (JStr ''historical'')),
                          (''accuracy'', Some (JStr ''medium'')),
                          (''sampleSize'', get_field ''sampleSize'' historicalEstimate)])
             else None)),
         (''fallback'',
            Some (obj [(''energy'',
                          Some (JNum (estimator_getFallbackEnergyEstimate functionName
                                        parameters contractAddress))),
                       (''method'', Some (JStr ''fallback'')),
                       (''accuracy'', Some (JStr ''low''))]))])"

text \<open>
  \<open>getContractInstance\<close>: the cached contract, or the one fetched from the node and then
  cached. The result is the contract, the network requests made and the cache afterwards.
\<close>

definition getContractInstance ::
    "estimator \<Rightarrow> string \<Rightarrow> contract outcome \<times> netcall list \<times> (string \<times> contract) list" where
  "getContractInstance est contractAddress =
     (case map_of (contractCache est) contractAddress of
        Some c \<Rightarrow> (Returns c, [], contractCache est)
      | None \<Rightarrow>
          (case contract_at est contractAddress of
             Returns c \<Rightarrow>
               (Returns c, [ContractAt], AList.update contractAddress c (contractCache est))
           | Throws e \<Rightarrow>
               (Throws (''Failed to get contract instance: '' @ e), [ContractAt],
                contractCache est)))"

text \<open>
  \<open>buildContractTransaction\<close>: the check \<open>!contract[functionName]\<close>, then the call and
  its \<open>send\<close>. A property that is not a method passes the check and fails in the call,
  before any request.
\<close>

definition buildContractTransaction ::
    "estimator \<Rightarrow> contract \<Rightarrow> string \<Rightarrow> string \<Rightarrow> json list
      \<Rightarrow> json outcome \<times> netcall list" where
  "buildContractTransaction est c contractAddress functionName parameters =
     (case map_of c functionName of
        None \<Rightarrow>
          (Throws (''Failed to build transaction: Function '' @ QUOTE @ functionName @ QUOTE
                   @ '' not found in contract''), [])
      | Some Other \<Rightarrow>
          (Throws (''Failed to build transaction: '' @ not_a_method est functionName), [])
      | Some Method \<Rightarrow>
          (case send est contractAddress functionName parameters of
             Throws e \<Rightarrow> (Throws (''Failed to build transaction: '' @ e), [SendTransaction])
           | Returns transaction \<Rightarrow> (Returns transaction, [SendTransaction])))"

text \<open>
  \<open>estimateContractEnergy(contractAddress, functionName, parameters, callerAddress,
  feeLimit)\<close>: the value returned or the message of the error thrown, the network requests
  made, and the contract cache afterwards. Every error leaves through the method's
  \<open>catch\<close>, which puts \<open>Energy estimation failed: \<close> in front of its message.
\<close>

definition estimator_estimateContractEnergy ::
    "estimator \<Rightarrow> string \<Rightarrow> string \<Rightarrow> json list \<Rightarrow> string option \<Rightarrow> string
      \<Rightarrow> json outcome \<times> netcall list \<times> (string \<times> contract) list" where
  "estimator_estimateContractEnergy est contractAddress functionName parameters callerAddress
       timestamp =
     (if \<not> isAddress est contractAddress then
        (Throws (''Energy estimation failed: Invalid contract address: '' @ contractAddress),
         [], contractCache est)
      else
        (let fromAddress = or_default callerAddress (or_default (defaultAddress est) [])
         in
         if fromAddress = [] then
           (Throws (''Energy estimation failed: ''
                    @ ''No caller address provided and no default address set''),
            [], contractCache est)
         else
           (case getContractInstance est contractAddress of
              (Throws e, net, cache) \<Rightarrow>
                (Throws (''Energy estimation failed: '' @ e), net, cache)
            | (Returns c, net, cache) \<Rightarrow>
                (case buildContractTransaction est c contractAddress functionName
                        parameters of
                   (Throws e, net') \<Rightarrow>
                     (Throws (''Energy estimation failed: '' @ e), net @ net', cache)
                 | (Returns transaction, net') \<Rightarrow>
                     (let estimations =
                            performEnergyEstimation est contractAddress functionName
                              parameters fromAddress
                      in (Returns (obj
                            [(''contractAddress'', Some (JStr contractAddress)),
                             (''functionName'', Some (JStr functionName)),
                             (''parameters'', Some (JArr parameters)),
                             (''callerAddress'', Some (JStr fromAddress)),
                             (''estimations'', Some estimations),
                             (''recommended'',
                                first_truthy
                                  [get_field ''triggerConstantContract'' estimations,
                                   get_field ''estimateEnergy'' estimations,
                                   get_field ''fallback'' estimations]),
                             (''timestamp'', Some (JStr timestamp))]),
                          net @ net' @ [PerformEstimation], cache))))))"

section \<open>Energy estimation tool: \<open>estimateContractEnergy\<close> (src/index.js)\<close>

definition DEFAULT_CALLER :: string where
  "DEFAULT_CALLER = ''TU4vEruvZwLLkSfV9bNw12EJTPvNr7Pvaa''"

definition EXPLORER_CALLER :: string where
  "EXPLORER_CALLER = ''TLyqzVGLV1srkB7dToTAEqgDSfPtXRJZYH''"

definition FRESH_ADDRESS :: string where
  "FRESH_ADDRESS = ''TZ4UXDV5ZhNW7fb2AMSbgfAEZ7hWsnYS2g''"

text \<open>
  What the tool depends on: \<open>this.energyEstimator\<close> (\<open>null\<close> until its delayed
  initialisation has run), the live queries of the gateway thunk and the clock. A live
  query is \<open>encodeParams\<close>, \<open>trongridApiCall\<close> on \<open>/wallet/triggerconstantcontract\<close> and
  \<open>JSON.parse(result.content[0].text).result\<close>; \<open>live k\<close> is what the thunk's \<open>k\<close>-th
  query yields.
\<close>

record estimate_env =
  energyEstimator :: "estimator option"
  live :: "nat \<Rightarrow> json outcome"
  now :: string

text \<open>
  Each query sits in a \<open>try\<close> together with the first read of \<open>apiResult.energy_used\<close>;
  on a \<open>null\<close> result that read throws a \<open>TypeError\<close>, which the same \<open>catch\<close> handles
  like a failed request.
\<close>

definition query :: "estimate_env \<Rightarrow> nat \<Rightarrow> json outcome" where
  "query env k =
     (case live env k of
        Returns JNull \<Rightarrow>
          Throws (''Cannot read properties of null (reading '' @ QUOTE @ ''energy_used''
                  @ QUOTE @ '')'')
      | r \<Rightarrow> r)"

text \<open>\<open>apiResult.energy_used || 0\<close>, the property being a number when it is present.\<close>

definition number_or_zero :: "string \<Rightarrow> json \<Rightarrow> int" where
  "number_or_zero k apiResult =
     (case get_field k apiResult of Some (JNum n) \<Rightarrow> n | _ \<Rightarrow> 0)"

definition isUserAddressProvided :: "json \<Rightarrow> bool" where
  "isUserAddressProvided userAddress =
     (case userAddress of JStr a \<Rightarrow> address_shape a | _ \<Rightarrow> False)"

text \<open>
  \<open>displayToAddress\<close>: a forced recipient for a USDT transfer, else the first parameter
  or \<open>null\<close>.
\<close>

definition displayToAddress :: "string \<Rightarrow> string \<Rightarrow> string \<Rightarrow> json list \<Rightarrow> json" where
  "displayToAddress forced contractAddress functionName parameters =
     (if contractAddress = USDT_CONTRACT \<and> functionName = ''transfer'' then JStr forced
      else if length parameters > 0 then parameters ! 0 else JNull)"

text \<open>The four leading properties and the two trailing ones that every reply shares.\<close>

definition estimate_reply ::
    "string \<Rightarrow> string \<Rightarrow> json list \<Rightarrow> string \<Rightarrow> json \<Rightarrow> json \<Rightarrow> string \<Rightarrow> json" where
  "estimate_reply contractAddress functionName parameters caller estimations recommended
       timestamp =
     obj [(''contractAddress'', Some (JStr contractAddress)),
          (''functionName'', Some (JStr functionName)),
          (''parameters'', Some (JArr parameters)),
          (''callerAddress'', Some (JStr caller)),
          (''estimations'', Some estimations),
          (''recommended'', Some recommended),
          (''timestamp'', Some (JStr timestamp))]"

text \<open>
  One side of the dual test for a USDT transfer: the energy of the query, or the hardcoded
  constant when the query throws; and the \<open>api_response\<close>, if there is one.
\<close>

definition dual_side :: "json outcome \<Rightarrow> int \<Rightarrow> int \<times> json option" where
  "dual_side q hardcoded =
     (case q of
        Returns apiResult \<Rightarrow> (number_or_zero ''energy_used'' apiResult, Some apiResult)
      | Throws _ \<Rightarrow> (hardcoded, None))"

definition dual_estimations ::
    "string \<Rightarrow> string option \<Rightarrow> int \<times> json option \<Rightarrow> int \<times> json option \<Rightarrow> json" where
  "dual_estimations method original_error withUSDT withoutUSDT =
     obj [(''trongrid'', Some (obj
            [(''energy_with_usdt'', Some (JNum (fst withUSDT))),
             (''energy_without_usdt'', Some (JNum (fst withoutUSDT))),
             (''address_with_usdt'', Some (JStr EXISTING_ADDRESS)),
             (''address_without_usdt'', Some (JStr FRESH_ADDRESS)),
             (''method'', Some (JStr method)),
             (''accuracy'', Some (JStr ''high'')),
             (''original_error'', map_option JStr original_error),
             (''api_responses'', Some (obj
                [(''with_usdt'', snd withUSDT), (''without_usdt'', snd withoutUSDT)]))]))]"

definition dual_recommended :: "int \<times> json option \<Rightarrow> int \<times> json option \<Rightarrow> json" where
  "dual_recommended withUSDT withoutUSDT =
     obj [(''existing_usdt_address'', Some (JNum (fst withUSDT))),
          (''new_usdt_address'', Some (JNum (fst withoutUSDT)))]"

text \<open>The \<open>estimations\<close> entry built from the static heuristic.\<close>

definition predefined_estimations :: "int \<Rightarrow> string option \<Rightarrow> json \<Rightarrow> json" where
  "predefined_estimations energy error recipient =
     obj [(''fallback'', Some (obj
            [(''energy'', Some (JNum energy)),
             (''method'', Some (JStr ''predefined'')),
             (''accuracy'', Some (JStr ''medium'')),
             (''error'', map_option JStr error),
             (''recipient_address'', Some recipient),
             (''energy_calculation'', Some (JStr ''fallback_with_address_check''))]))]"

text \<open>The \<open>trongrid\<close> thunk.\<close>

definition trongrid_estimate ::
    "estimate_env \<Rightarrow> string \<Rightarrow> string \<Rightarrow> json list \<Rightarrow> string option \<Rightarrow> json outcome" where
  "trongrid_estimate env contractAddress functionName parameters callerAddress =
     (let fromAddress = or_default callerAddress DEFAULT_CALLER;
          reply = estimate_reply contractAddress functionName parameters fromAddress
      in
      if contractAddress = USDT_CONTRACT \<and> functionName = ''transfer''
           \<and> length parameters = 2 then
        (let userAddress = parameters ! 0 in
         if isUserAddressProvided userAddress then
           (case query env 0 of
              Returns apiResult \<Rightarrow>
                (let energyUsed = number_or_zero ''energy_used'' apiResult
                 in Returns (reply
                      (obj [(''trongrid'', Some (obj
                         [(''energy'', Some (JNum energyUsed)),
                          (''method'', Some (JStr ''triggerconstantcontract'')),
                          (''accuracy'', Some (JStr ''high'')),
                          (''recipient_address'', Some userAddress),
                          (''api_response'', Some apiResult)]))])
                      (JNum energyUsed) (now env)))
            | Throws error \<Rightarrow>
                (let withUSDT = dual_side (query env 1) 64285;
                     withoutUSDT = dual_side (query env 2) 130285
                 in Returns (reply
                      (dual_estimations ''triggerconstantcontract_dual_fallback'' (Some error)
                         withUSDT withoutUSDT)
                      (dual_recommended withUSDT withoutUSDT) (now env))))
         else
           (let withUSDT = dual_side (query env 0) 64285;
                withoutUSDT = dual_side (query env 1) 130285
            in Returns (reply
                 (dual_estimations ''triggerconstantcontract_dual'' None withUSDT withoutUSDT)
                 (dual_recommended withUSDT withoutUSDT) (now env))))
      else
        (let recipient = displayToAddress NEW_ADDRESS contractAddress functionName parameters
         in case query env 0 of
              Returns apiResult \<Rightarrow>
                (let energyUsed = number_or_zero ''energy_used'' apiResult;
                     finalEnergy =
                       (if energyUsed > 0 then energyUsed
                        else getFallbackEnergyEstimate functionName parameters contractAddress
                               recipient)
                 in Returns (reply
                      (obj [(''trongrid'', Some (obj
                         [(''energy'', Some (JNum finalEnergy)),
                          (''method'', Some (JStr ''triggerconstantcontract'')),
                          (''accuracy'',
                             Some (JStr (if energyUsed > 0 then ''high'' else ''medium''))),
                          (''raw_energy_used'', Some (JNum energyUsed)),
                          (''api_response'', Some apiResult),
                          (''recipient_address'', Some recipient),
                          (''energy_calculation'',
                             Some (JStr (if energyUsed > 0 then ''api_response''
                                         else ''fallback_with_address_check'')))]))])
                      (JNum finalEnergy) (now env)))
            | Throws apiError \<Rightarrow>
                (let energy = getFallbackEnergyEstimate functionName parameters contractAddress
                                recipient
                 in Returns (reply (predefined_estimations energy (Some apiError) recipient)
                      (JNum energy) (now env)))))"

text \<open>The \<open>tronscan\<close> thunk: the static heuristic, with no request to the explorer.\<close>

definition tronscan_estimate ::
    "estimate_env \<Rightarrow> string \<Rightarrow> string \<Rightarrow> json list \<Rightarrow> string option \<Rightarrow> json outcome" where
  "tronscan_estimate env contractAddress functionName parameters callerAddress =
     (let recipient = displayToAddress EXISTING_ADDRESS contractAddress functionName parameters;
          energy = getFallbackEnergyEstimate functionName parameters contractAddress recipient
      in Returns (estimate_reply contractAddress functionName parameters
            (or_default callerAddress EXPLORER_CALLER)
            (predefined_estimations energy None recipient) (JNum energy) (now env)))"

text \<open>The \<open>tronweb\<close> thunk: the estimator, if it has been initialised.\<close>

definition tronweb_estimate ::
    "estimate_env \<Rightarrow> string \<Rightarrow> string \<Rightarrow> json list \<Rightarrow> string option \<Rightarrow> json outcome" where
  "tronweb_estimate env contractAddress functionName parameters callerAddress =
     (case energyEstimator env of
        None \<Rightarrow> Throws ''Energy estimator not initialized''
      | Some est \<Rightarrow>
          fst (estimator_estimateContractEnergy est contractAddress functionName parameters
                 callerAddress (now env)))"

definition estimate_operation ::
    "estimate_env \<Rightarrow> string \<Rightarrow> string \<Rightarrow> json list \<Rightarrow> string option \<Rightarrow> operation" where
  "estimate_operation env contractAddress functionName parameters callerAddress =
     \<lparr>tronweb = Some (tronweb_estimate env contractAddress functionName parameters callerAddress),
      trongrid = Some (trongrid_estimate env contractAddress functionName parameters callerAddress),
      tronscan = Some (tronscan_estimate env contractAddress functionName parameters callerAddress)\<rparr>"

text \<open>
  A method's own \<open>catch\<close>: the error of the router, an \<open>McpError\<close>, leaves as another
  with the method's words in front of its message. The reply to the client is the JSON
  text of the value.
\<close>

definition failed_to :: "string \<Rightarrow> exec \<Rightarrow> exec" where
  "failed_to what e =
     e\<lparr>response := (case response e of
                       Throws message \<Rightarrow> Throws (what @ McpError_message message)
                     | Returns v \<Rightarrow> Returns v)\<rparr>"

definition estimateContractEnergy ::
    "estimate_env \<Rightarrow> bool option \<Rightarrow> probe \<Rightarrow> string \<Rightarrow> string \<Rightarrow> json list \<Rightarrow> string option
      \<Rightarrow> exec" where
  "estimateContractEnergy env nodeAvailable pr contractAddress functionName parameters
       callerAddress =
     failed_to ''Failed to estimate contract energy: ''
       (executeWithFallback nodeAvailable pr
          (estimate_operation env contractAddress functionName parameters callerAddress)
          ''estimateContractEnergy'')"

text \<open>Reading a nested property.\<close>

fun path :: "string list \<Rightarrow> json \<Rightarrow> json option" where
  "path [] v = Some v"
| "path (k # ks) v = (case get_field k v of Some w \<Rightarrow> path ks w | None \<Rightarrow> None)"


definition returned :: "json outcome \<Rightarrow> json option" where
  "returned r = (case r of Returns v \<Rightarrow> Some v | Throws _ \<Rightarrow> None)"

section \<open>The estimation tool on arguments of any type\<close>

text \<open>
  The request handler hands the arguments of a tool call to the method as they arrive
  (\<open>return await this.estimateContractEnergy(args)\<close>). The input schema of the tool
  names a string for \<open>functionName\<close> and an array for \<open>parameters\<close>, and nothing
  checks a call against it. The definitions above take a string and an array. In this
  section the function name is any JSON value and the parameters are an array or \<open>null\<close>
  (\<open>None\<close>); on a string and an array the definitions below are the ones above.
\<close>


text \<open>
  The messages of the \<open>TypeError\<close>s that the engine raises: for a property read on
  \<open>null\<close>, for \<open>functionName.toLowerCase()\<close> on a value that is not a string, and for
  \<open>...parameters\<close> in a call when \<open>parameters\<close> is \<open>null\<close>.
\<close>

definition cannot_read :: "string \<Rightarrow> string" where
  "cannot_read property =
     ''Cannot read properties of null (reading '' @ QUOTE @ property @ QUOTE @ '')''"

definition toLowerCase_error :: "json \<Rightarrow> string" where
  "toLowerCase_error functionName =
     (if functionName = JNull then cannot_read ''toLowerCase''
      else ''functionName.toLowerCase is not a function'')"


text \<open>
  \<open>getFallbackEnergyEstimate(functionName, parameters, contractAddress, toAddress)\<close> of
  the server: its first statement calls \<open>functionName.toLowerCase()\<close>, and its last reads
  \<open>parameters.length\<close>.
\<close>

definition getFallbackEnergyEstimate_js ::
    "json \<Rightarrow> json list option \<Rightarrow> string \<Rightarrow> json \<Rightarrow> int outcome" where
  "getFallbackEnergyEstimate_js functionName parameters contractAddress toAddress =
     (case functionName of
        JStr name \<Rightarrow>
          (let functionLower = toLowerCase name in
           if contractAddress = USDT_CONTRACT \<and> functionLower = ''transfer'' then
             Returns (if truthy toAddress \<and> toAddress = JStr NEW_ADDRESS then 28000
                      else if truthy toAddress \<and> toAddress = JStr EXISTING_ADDRESS then 13940
                      else 13940)
           else if contractAddress = USDT_CONTRACT \<and> functionLower = ''approve''
             then Returns 13180
           else if contractAddress = USDT_CONTRACT \<and> functionLower = ''transferfrom''
             then Returns 18190
           else if contractAddress = USDT_CONTRACT \<and> functionLower = ''balanceof''
             then Returns 680
           else if str_includes functionLower ''transfer'' \<or> str_includes functionLower ''send''
             then Returns 14010
           else if str_includes functionLower ''approve''
                   \<or> str_includes functionLower ''allowance''
             then Returns 10000
           else if str_includes functionLower ''swap'' \<or> str_includes functionLower ''exchange''
             then Returns 50000
           else if str_includes functionLower ''mint'' \<or> str_includes functionLower ''burn''
             then Returns 30000
           else if str_includes functionLower ''view'' \<or> str_includes functionLower ''get''
                   \<or> str_includes functionLower ''balance''
             then Returns 1000
           else
             (case parameters of
                Some ps \<Rightarrow> Returns (20000 + int (length ps) * 5000)
              | None \<Rightarrow> Throws (cannot_read ''length'')))
      | _ \<Rightarrow> Throws (toLowerCase_error functionName))"











section \<open>Write operations: \<open>contractCall\<close> (src/index.js) and \<open>AccountModule.sendTrx\<close>\<close>

text \<open>
  \<open>{ ...result, k1: v1, ... }\<close>: the properties of the result, then the named ones, a
  later one overwriting an earlier one of the same name.
\<close>

definition spread_with :: "json \<Rightarrow> (string \<times> json) list \<Rightarrow> json" where
  "spread_with result kvs = JObj (fold (\<lambda>(k, v). AList.update k v) kvs (spread result))"

text \<open>The function signature the gateway thunk of \<open>contractCall\<close> sends.\<close>

definition functionSelector :: "string \<Rightarrow> json list \<Rightarrow> string" where
  "functionSelector functionName parameters =
     (if functionName = ''balanceOf'' \<and> length parameters = 1 then ''balanceOf(address)''
      else if functionName = ''transfer'' \<and> length parameters = 2
        then ''transfer(address,uint256)''
      else if functionName = ''approve'' \<and> length parameters = 2
        then ''approve(address,uint256)''
      else functionName)"

text \<open>
  The backends of a write. \<open>node_write\<close> is the primary thunk's body (the contract's
  \<open>send\<close>, or \<open>sendTransaction\<close>); \<open>gateway_write\<close> is the request of the gateway thunk
  (signing where needed, the API call and the parsing of its answer), given the function
  selector of a contract call or the endpoint of a broadcast. \<open>encodeParams\<close> is
  \<open>this.tronWeb.utils.abi.encodeParams(types, values)\<close>: the encoded text or the error,
  and the \<open>values\<close> array as the call leaves it, for the library writes the hex form of
  every address into the array it is given.
\<close>

record write_backends =
  node_write :: "json outcome"
  gateway_write :: "string \<Rightarrow> json outcome"
  encodeParams :: "string list \<Rightarrow> json list \<Rightarrow> string outcome \<times> json list"

text \<open>The ABI type that \<open>encodeContractParameters\<close> gives a parameter.\<close>

definition is_decimal :: "string \<Rightarrow> bool" where
  "is_decimal s = (s \<noteq> [] \<and> list_all (\<lambda>c. c \<in> set ''0123456789'') s)"

definition param_type :: "json \<Rightarrow> string" where
  "param_type param =
     (case param of
        JStr s \<Rightarrow>
          (if address_shape s then ''address''
           else if is_decimal s then ''uint256''
           else ''string'')
      | JNum _ \<Rightarrow> ''uint256''
      | JBool _ \<Rightarrow> ''bool''
      | _ \<Rightarrow> ''bytes'')"

text \<open>
  \<open>encodeContractParameters(parameters)\<close>: the encoded text (empty when the encoding
  fails) and the \<open>parameters\<close> array afterwards. An address and an amount are encoded from
  a fresh array; every other combination, and an address and an amount whose encoding
  failed, hands the caller's array itself to the library.
\<close>

definition encodeContractParameters :: "write_backends \<Rightarrow> json list \<Rightarrow> string \<times> json list" where
  "encodeContractParameters env parameters =
     (if parameters = [] then ([], parameters)
      else
        (let others =
               (case encodeParams env (map param_type parameters) parameters of
                  (Returns encoded, parameters') \<Rightarrow> (encoded, parameters')
                | (Throws _, parameters') \<Rightarrow> ([], parameters'))
         in
         if length parameters = 2
            \<and> (case parameters ! 0 of JStr toAddress \<Rightarrow> address_shape toAddress | _ \<Rightarrow> False)
         then
           (case fst (encodeParams env [''address'', ''uint256'']
                        [parameters ! 0, parameters ! 1]) of
              Returns encoded \<Rightarrow> (encoded, parameters)
            | Throws _ \<Rightarrow> others)
         else others))"

text \<open>
  The gateway thunk of \<open>contractCall\<close>: the encoding of the parameters, then the request.
  A single parameter of \<open>balanceOf\<close> is encoded from a fresh array, outside any \<open>try\<close>.
  \<open>gateway_call\<close> is the thunk's outcome and \<open>gateway_parameters\<close> the caller's
  \<open>parameters\<close> array once the thunk has run.
\<close>

definition gateway_call :: "write_backends \<Rightarrow> string \<Rightarrow> json list \<Rightarrow> json outcome" where
  "gateway_call env functionName parameters =
     (let request = gateway_write env (functionSelector functionName parameters)
      in if functionName = ''balanceOf'' \<and> length parameters = 1 then
           (case fst (encodeParams env [''address''] [parameters ! 0]) of
              Returns encoded \<Rightarrow> request
            | Throws error \<Rightarrow> Throws error)
         else request)"

definition gateway_parameters :: "write_backends \<Rightarrow> string \<Rightarrow> json list \<Rightarrow> json list" where
  "gateway_parameters env functionName parameters =
     (if functionName = ''balanceOf'' \<and> length parameters = 1 then parameters
      else snd (encodeContractParameters env parameters))"

definition CONTRACT_READ_ONLY :: string where
  "CONTRACT_READ_ONLY = ''TronScan API does not support contract calls - read-only API''"

definition BROADCAST_READ_ONLY :: string where
  "BROADCAST_READ_ONLY =
     ''TronScan API does not support transaction broadcasting - read-only API''"

definition contractCall_operation :: "write_backends \<Rightarrow> string \<Rightarrow> json list \<Rightarrow> operation" where
  "contractCall_operation env functionName parameters =
     \<lparr>tronweb = Some (node_write env),
      trongrid = Some (gateway_call env functionName parameters),
      tronscan = Some (Throws CONTRACT_READ_ONLY)\<rparr>"

text \<open>\<open>feeLimit || 100000000\<close>\<close>

definition feeLimit_or_default :: "int option \<Rightarrow> int" where
  "feeLimit_or_default feeLimit =
     (case feeLimit of Some n \<Rightarrow> (if n = 0 then 100000000 else n) | None \<Rightarrow> 100000000)"

text \<open>
  \<open>contractCall({ contractAddress, functionName, parameters, feeLimit })\<close>. The reply
  names the \<open>parameters\<close> array as it is when the router has returned: as the gateway
  thunk left it, if that thunk ran. The error of the router is an \<open>McpError\<close>, whose
  message the method's \<open>catch\<close> wraps in another.
\<close>

definition contractCall ::
    "write_backends \<Rightarrow> bool option \<Rightarrow> probe \<Rightarrow> string \<Rightarrow> string \<Rightarrow> json list \<Rightarrow> int option
      \<Rightarrow> exec" where
  "contractCall env nodeAvailable pr contractAddress functionName parameters feeLimit =
     (let e = executeWithFallback nodeAvailable pr
                (contractCall_operation env functionName parameters) ''contractCall'';
          parameters' =
            (if TronGrid \<in> set (attempts e) then gateway_parameters env functionName parameters
             else parameters)
      in e\<lparr>response :=
             (case response e of
                Returns result \<Rightarrow>
                  Returns (spread_with result
                    [(''contractAddress'', JStr contractAddress),
                     (''functionName'', JStr functionName),
                     (''parameters'', JArr parameters'),
                     (''feeLimit'', JNum (feeLimit_or_default feeLimit))])
              | Throws message \<Rightarrow>
                  Throws (''Failed to call contract: '' @ McpError_message message))\<rparr>)"

definition sendTrx_operation :: "write_backends \<Rightarrow> operation" where
  "sendTrx_operation env =
     \<lparr>tronweb = Some (node_write env),
      trongrid = Some (gateway_write env ''/wallet/broadcasttransaction''),
      tronscan = Some (Throws BROADCAST_READ_ONLY)\<rparr>"

text \<open>
  \<open>sendTrx({ to, amount, privateKey })\<close>. \<open>keyConfigured\<close> says whether
  \<open>process.env.PRIVATE_KEY\<close> or the client's default key is set. Without any key the
  method throws before the router is called. Either error leaves through the method's
  \<open>catch\<close> as an \<open>McpError\<close>; that of the router is one already.
\<close>

definition sendTrx ::
    "write_backends \<Rightarrow> bool \<Rightarrow> bool option \<Rightarrow> probe \<Rightarrow> string \<Rightarrow> json \<Rightarrow> string option \<Rightarrow> string
      \<Rightarrow> exec" where
  "sendTrx env keyConfigured nodeAvailable pr to amount privateKey timestamp =
     (if \<not> provided privateKey \<and> \<not> keyConfigured then
        \<lparr>response = Throws (''Failed to send TRX: Private key required for sending ''
             @ ''transactions. Set PRIVATE_KEY in environment or provide in request.''),
         attempts = [], recorded = [], flag = nodeAvailable\<rparr>
      else
        (let e = executeWithFallback nodeAvailable pr (sendTrx_operation env) ''sendTrx''
         in e\<lparr>response :=
                (case response e of
                   Returns result \<Rightarrow>
                     Returns (spread_with result
                       [(''to'', JStr to), (''amount'', amount),
                        (''timestamp'', JStr timestamp)])
                 | Throws message \<Rightarrow>
                     Throws (''Failed to send TRX: '' @ McpError_message message))\<rparr>))"

text \<open>
  A write whose node and gateway are both down. The encoder writes \<open>0x\<close> and twenty
  bytes in hex for an address.
\<close>

definition backends_down :: write_backends where
  "backends_down =
     \<lparr>node_write = Throws ''connect ECONNREFUSED'',
      gateway_write = (\<lambda>selector. Throws ''TronGrid API call failed: fetch failed''),
      encodeParams =
        (\<lambda>types values.
           (Returns ''0x'',
            map (\<lambda>(t, v). if t = ''address''
                           then JStr ''0x0000000000000000000000000000000000000000'' else v)
              (zip types values)))\<rparr>"

text \<open>A server whose estimator is initialised and validates addresses by their shape.\<close>

definition shape_estimator :: estimator where
  "shape_estimator =
     \<lparr>isAddress = address_shape,
      defaultAddress = Some NEW_ADDRESS,
      contractCache = [],
      contract_at = (\<lambda>a. Returns [(''transfer'', Method), (''approve'', Method),
                                     (''balanceOf'', Method), (''stake'', Method),
                                     (''toString'', Other)]),
      send = (\<lambda>a f ps. Returns (JObj [])),
      not_a_method = (\<lambda>f. ''contract[functionName](...).send is not a function''),
      triggerConstantContract = (\<lambda>a f ps caller. Throws ''REVERT opcode executed''),
      estimateEnergy = (\<lambda>a f ps caller. Returns (JObj [(''energy_required'', JNum 31000)])),
      estimateEnergyViaRPC = (\<lambda>a f ps caller. JNull),
      getHistoricalEnergyUsage = (\<lambda>a f. JNull)\<rparr>"

definition warm_start :: estimate_env where
  "warm_start =
     \<lparr>energyEstimator = Some shape_estimator,
      live = (\<lambda>k. Returns (JObj [(''energy_used'', JNum 0)])),
      now = ''2025-01-01T00:00:00.000Z''\<rparr>"

section \<open>Verified properties\<close>

subsection \<open>Helper facts\<close>

lemmas router_defs = executeWithFallback_def callNode_def afterNode_def skipNode_def rethrow_def
  fallbacks_def lastResort_def checkNodeAvailability_def

lemmas heuristic_defs = getFallbackEnergyEstimate_def fallbackEstimate_spec_def
  known_contract_estimate_def pattern_estimate_def pattern_table_def

lemma str_includes_sublist: "str_includes s p = sublist p s"
  by (induction s) (auto simp: sublist_Cons_right)

lemma source_with_source: "get_field ''source'' (with_source result tag) = Some (JStr tag)"
  by (simp add: get_field_def with_source_def update_conv')

lemma fallbacks_gateway_returns:
  assumes "trongrid operation = Some (Returns result)"
  shows "fallbacks operation sources allFailed otherwise =
           (Returns (with_source result ''trongrid_api''), [TronGrid], sources)"
  using assms by (simp add: fallbacks_def)

text \<open>The gateway candidate returns: it answers whenever the node does not.\<close>

lemma gateway_after_node_failure:
  assumes "tronweb operation = Some (Throws nodeError)"
    and "trongrid operation = Some (Returns result)"
  shows "response (executeWithFallback nodeAvailable pr operation operationName)
           = Returns (with_source result ''trongrid_api'')
       \<and> TronScan \<notin> set (attempts (executeWithFallback nodeAvailable pr operation operationName))"
proof -
  obtain available fl where c: "checkNodeAvailability nodeAvailable pr = (available, fl)"
    by (cases "checkNodeAvailability nodeAvailable pr")
  have skip: "response (skipNode fl operation operationName)
                = Returns (with_source result ''trongrid_api'')
              \<and> TronScan \<notin> set (attempts (skipNode fl operation operationName))"
    using assms by (simp add: skipNode_def rethrow_def fallbacks_gateway_returns)
  have node: "response (afterNode fl operation operationName (Throws nodeError) [TronWeb])
                = Returns (with_source result ''trongrid_api'')
              \<and> TronScan \<notin> set (attempts
                    (afterNode fl operation operationName (Throws nodeError) [TronWeb]))"
    using assms by (simp add: afterNode_def rethrow_def fallbacks_gateway_returns)
  show ?thesis
    using skip node assms(1) c
    by (simp add: executeWithFallback_def callNode_def)
qed


text \<open>
  The latch for calls that do not overlap: a call that starts from \<open>false\<close> leaves
  \<open>false\<close> and does not invoke the primary thunk, so the same holds for every call of a
  sequence that starts there; and a call whose primary candidate throws, or is missing,
  leaves \<open>false\<close> whatever it started from.
\<close>

lemma latch_execute:
  "flag (executeWithFallback (Some False) pr operation operationName) = Some False
   \<and> TronWeb \<notin> set (attempts (executeWithFallback (Some False) pr operation operationName))"
  by (simp add: router_defs split: option.splits outcome.splits)

lemma latch_sequential:
  "e \<in> set (executeAll (Some False) calls) \<Longrightarrow> flag e = Some False \<and> TronWeb \<notin> set (attempts e)"
proof (induction calls arbitrary: e)
  case Nil
  then show ?case by simp
next
  case (Cons c calls)
  obtain pr operation operationName where c: "c = (pr, operation, operationName)"
    by (cases c)
  from Cons.prems show ?case
    using latch_execute [of pr operation operationName] Cons.IH
    by (auto simp: c Let_def)
qed

lemma primary_failure_sets_flag:
  assumes "tronweb operation = Some (Throws nodeError) \<or> tronweb operation = None"
  shows "flag (executeWithFallback nodeAvailable pr operation operationName) = Some False"
  using assms
  by (auto simp: router_defs split: option.splits outcome.splits probe.splits prod.splits)

text \<open>
  A call that is resumed three times with no other call in between does what
  \<open>executeWithFallback\<close> does.
\<close>

lemma run_alone:
  "run [0, 0, 0] (fl, [((pr, operation, operationName), Entry)])
     = (flag (executeWithFallback fl pr operation operationName),
        [((pr, operation, operationName), Done (executeWithFallback fl pr operation operationName))])"
  by (auto simp: resume_def enter_def executeWithFallback_def checkNodeAvailability_def callNode_def
      afterNode_def skipNode_def Let_def
      split: option.splits probe.splits outcome.splits prod.splits)

text \<open>
  When the flag is \<open>false\<close> and no call is waiting for its probe, no schedule of the
  calls in flight sets it back: only the resumption of a probe writes \<open>true\<close>.
\<close>

lemma resume_keeps_latch:
  assumes "ph \<noteq> AwaitProbe"
  shows "fst (resume (Some False) c ph) = Some False
       \<and> snd (resume (Some False) c ph) \<noteq> AwaitProbe"
proof -
  obtain pr operation operationName where c: "c = (pr, operation, operationName)"
    by (cases c)
  show ?thesis
  proof (cases ph)
    case Entry
    then show ?thesis by (simp add: c resume_def enter_def)
  next
    case AwaitProbe
    with assms show ?thesis by simp
  next
    case AwaitNode
    then show ?thesis
      by (simp add: c resume_def afterNode_def Let_def
            split: option.splits outcome.splits prod.splits)
  next
    case (Done e)
    then show ?thesis by (simp add: c resume_def)
  qed
qed

lemma latch_without_probe_in_flight:
  assumes "\<forall>t \<in> set tasks. snd t \<noteq> AwaitProbe"
  shows "fst (run sched (Some False, tasks)) = Some False"
  using assms
proof (induction sched arbitrary: tasks)
  case Nil
  then show ?case by simp
next
  case (Cons i sched)
  show ?case
  proof (cases "i < length tasks")
    case False
    with Cons show ?thesis by simp
  next
    case True
    obtain c ph where t: "tasks ! i = (c, ph)"
      by (cases "tasks ! i")
    from True t Cons.prems have ph: "ph \<noteq> AwaitProbe"
      by (metis nth_mem snd_conv)
    obtain fl' ph' where r: "resume (Some False) c ph = (fl', ph')"
      by (cases "resume (Some False) c ph")
    from resume_keeps_latch [OF ph, of c] r have fl': "fl' = Some False" and ph': "ph' \<noteq> AwaitProbe"
      by simp_all
    have "\<forall>t \<in> set (tasks[i := (c, ph')]). snd t \<noteq> AwaitProbe"
      using Cons.prems ph' by (auto dest!: set_update_subset_insert [THEN subsetD])
    from Cons.IH [OF this] show ?thesis
      using True t r fl' by simp
  qed
qed

text \<open>Substrings of an aggregate message.\<close>

lemma sublist_app_rightI: "sublist xs ys \<Longrightarrow> sublist xs (zs @ ys)"
  by (metis sublist_append_leftI sublist_order.order_trans)

lemma sublist_join: "x \<in> set xs \<Longrightarrow> sublist x (join sep xs)"
proof (induction sep xs rule: join.induct)
  case (1 sep)
  then show ?case by simp
next
  case (2 sep y)
  then show ?case by simp
next
  case (3 sep y z zs)
  show ?case
  proof (cases "x = y")
    case True
    then show ?thesis by simp
  next
    case False
    with 3 have "sublist x (join sep (z # zs))" by simp
    then show ?thesis
      by (auto intro: sublist_app_rightI)
  qed
qed

lemma fallbacks_all_failed:
  assumes "tronscan operation = Some (Throws tronscanError)"
    and "fallbacks operation sources allFailed otherwise = (Throws message, calls, sources')"
  shows "message = allFailed @ join '', '' sources'"
  using assms
  by (auto simp: fallbacks_def lastResort_def Let_def simp del: join.simps
        split: option.splits outcome.splits)

lemma skipNode_eq:
  assumes "fallbacks operation [] (''All API sources failed for '' @ operationName @ '': '')
             (''No fallback sources available for '' @ operationName) = (r, calls, sources')"
  shows "skipNode fl operation operationName
           = \<lparr>response = rethrow operationName r, attempts = calls, recorded = sources',
              flag = fl\<rparr>"
  using assms by (simp add: skipNode_def)

lemma afterNode_Throws_eq:
  assumes "fallbacks operation [''TronWeb: '' @ nodeError]
             (''All sources failed for '' @ operationName @ '': '') nodeError
            = (r, calls, sources')"
  shows "afterNode fl operation operationName (Throws nodeError) calls0
           = \<lparr>response = rethrow operationName r, attempts = calls0 @ calls,
              recorded = sources', flag = Some False\<rparr>"
  using assms by (simp add: afterNode_def)



lemma trongrid_estimate_returns:
  "\<exists>v. trongrid_estimate env contractAddress functionName parameters callerAddress = Returns v"
  by (simp add: trongrid_estimate_def Let_def split: outcome.splits)




text \<open>A candidate map whose explorer thunk throws: a value returned is the node's or the
  gateway's.\<close>

lemma explorer_refuses_source:
  assumes "tronscan operation = Some (Throws refusal)"
    and "response (executeWithFallback nodeAvailable pr operation operationName) = Returns v"
  shows "\<exists>result tag. v = with_source result tag \<and> (tag = ''tronweb_node'' \<or> tag = ''trongrid_api'')"
  using assms
  by (auto simp: router_defs Let_def
        split: option.splits outcome.splits probe.splits prod.splits if_splits)

lemma source_spread_with:
  assumes "''source'' \<notin> fst ` set kvs"
  shows "get_field ''source'' (spread_with (with_source result tag) kvs) = Some (JStr tag)"
proof -
  have "map_of (fold (\<lambda>(k, v). AList.update k v) kvs al) ''source'' = map_of al ''source''"
    if "''source'' \<notin> fst ` set kvs" for al
    using that
    by (induction kvs arbitrary: al) (auto simp: update_conv')
  with assms show ?thesis
    by (simp add: get_field_def spread_with_def with_source_def update_conv')
qed

text \<open>Calls in flight once the flag is \<open>false\<close>: a call that has not invoked its primary
  thunk never does.\<close>

lemma resume_skips_primary:
  assumes "skips_primary ph"
  shows "skips_primary (snd (resume (Some False) c ph))"
proof -
  obtain pr operation operationName where c: "c = (pr, operation, operationName)"
    by (cases c)
  show ?thesis
  proof (cases ph)
    case Entry
    have "TronWeb \<notin> set (attempts (skipNode (Some False) operation operationName))"
      by (simp add: skipNode_def fallbacks_def lastResort_def
            split: option.splits outcome.splits)
    with Entry show ?thesis by (simp add: c resume_def enter_def)
  next
    case AwaitProbe
    with assms show ?thesis by simp
  next
    case AwaitNode
    with assms show ?thesis by simp
  next
    case (Done e)
    with assms show ?thesis by (simp add: c resume_def)
  qed
qed

lemma latch_permanent:
  assumes "\<forall>t \<in> set tasks. snd t \<noteq> AwaitProbe"
    and "j < length tasks"
    and "skips_primary (snd (tasks ! j))"
  shows "skips_primary (snd (snd (run sched (Some False, tasks)) ! j))"
  using assms
proof (induction sched arbitrary: tasks)
  case Nil
  then show ?case by simp
next
  case (Cons i sched)
  show ?case
  proof (cases "i < length tasks")
    case False
    with Cons show ?thesis by simp
  next
    case True
    obtain c ph where t: "tasks ! i = (c, ph)"
      by (cases "tasks ! i")
    from True t Cons.prems(1) have ph: "ph \<noteq> AwaitProbe"
      by (metis nth_mem snd_conv)
    obtain fl' ph' where r: "resume (Some False) c ph = (fl', ph')"
      by (cases "resume (Some False) c ph")
    from resume_keeps_latch [OF ph, of c] r have fl': "fl' = Some False" and ph': "ph' \<noteq> AwaitProbe"
      by simp_all
    have a: "\<forall>t \<in> set (tasks[i := (c, ph')]). snd t \<noteq> AwaitProbe"
      using Cons.prems(1) ph' by (auto dest!: set_update_subset_insert [THEN subsetD])
    have b: "j < length (tasks[i := (c, ph')])" using Cons.prems(2) by simp
    have s: "skips_primary (snd (tasks[i := (c, ph')] ! j))"
    proof (cases "i = j")
      case True
      with Cons.prems(3) t have "skips_primary ph" by simp
      from resume_skips_primary [OF this, of c] r have "skips_primary ph'" by simp
      with True Cons.prems(2) show ?thesis by simp
    next
      case False
      with Cons.prems(3) show ?thesis by simp
    qed
    from Cons.IH [OF a b s] show ?thesis
      using True t r fl' by simp
  qed
qed





































subsection \<open>The router\<close>

text \<open>
  C1. When all three candidates are supplied, the primary candidate throws and the gateway
  candidate returns, the result is the gateway's value tagged \<open>source = 'trongrid_api'\<close>
  and the explorer thunk is not invoked, whatever the availability flag and the probe.
\<close>

theorem gateway_answers_after_primary_failure:
  assumes "tronweb operation = Some (Throws nodeError)"
    and "trongrid operation = Some (Returns result)"
    and "tronscan operation = Some explorer"
  shows "response (executeWithFallback nodeAvailable pr operation operationName)
           = Returns (with_source result ''trongrid_api'')
       \<and> get_field ''source'' (with_source result ''trongrid_api'') = Some (JStr ''trongrid_api'')
       \<and> TronScan \<notin> set (attempts (executeWithFallback nodeAvailable pr operation operationName))"
  using gateway_after_node_failure [OF assms(1) assms(2)]
  by (simp add: source_with_source)

theorem gateway_answers_after_primary_failure_witness:
  "response (executeWithFallback (Some True) (ProbeReturns 12)
       \<lparr>tronweb = Some (Throws ''ECONNREFUSED''),
        trongrid = Some (Returns (JObj [(''balance'', JNum 5)])),
        tronscan = Some (Returns (JObj []))\<rparr> ''getBalance'')
     = Returns (JObj [(''balance'', JNum 5), (''source'', JStr ''trongrid_api'')])
   \<and> TronScan \<notin> set (attempts (executeWithFallback (Some True) (ProbeReturns 12)
       \<lparr>tronweb = Some (Throws ''ECONNREFUSED''),
        trongrid = Some (Returns (JObj [(''balance'', JNum 5)])),
        tronscan = Some (Returns (JObj []))\<rparr> ''getBalance''))"
  using gateway_answers_after_primary_failure
    [of "\<lparr>tronweb = Some (Throws ''ECONNREFUSED''),
        trongrid = Some (Returns (JObj [(''balance'', JNum 5)])),
        tronscan = Some (Returns (JObj []))\<rparr>" "''ECONNREFUSED''"
        "JObj [(''balance'', JNum 5)]" "Returns (JObj [])" "Some True" "ProbeReturns 12" "''getBalance''"]
  by (simp add: with_source_def)

text \<open>
  When the explorer candidate is supplied and every attempted candidate throws, each
  message recorded in \<open>sources\<close> is a substring of the message of the error thrown.
\<close>

lemma aggregate_with_explorer:
  assumes "tronscan operation = Some (Throws tronscanError)"
    and "response (executeWithFallback nodeAvailable pr operation operationName) = Throws message"
    and "s \<in> set (recorded (executeWithFallback nodeAvailable pr operation operationName))"
  shows "sublist s message"
proof -
  have key: "sublist s m"
    if "fallbacks operation sources allFailed otherwise = (r, calls, sources')"
      and "rethrow operationName r = Throws m" and "s \<in> set sources'"
    for sources allFailed otherwise r calls sources' m
  proof -
    from that(2) obtain m0 where r: "r = Throws m0" and m: "m = operationName @ '' failed: '' @ m0"
      by (auto simp: rethrow_def split: outcome.splits)
    from fallbacks_all_failed [OF assms(1) that(1) [unfolded r]]
    have "m0 = allFailed @ join '', '' sources'" .
    with that(3) have "sublist s m0"
      by (auto intro: sublist_app_rightI sublist_join)
    then show ?thesis
      unfolding m by (intro sublist_app_rightI)
  qed
  obtain available fl where c: "checkNodeAvailability nodeAvailable pr = (available, fl)"
    by (cases "checkNodeAvailability nodeAvailable pr")
  show ?thesis
  proof (cases available)
    case False
    obtain r calls sources' where f: "fallbacks operation []
             (''All API sources failed for '' @ operationName @ '': '')
             (''No fallback sources available for '' @ operationName) = (r, calls, sources')"
      by (metis prod_cases3)
    from False have e: "executeWithFallback nodeAvailable pr operation operationName
        = \<lparr>response = rethrow operationName r, attempts = calls, recorded = sources',
           flag = fl\<rparr>"
      unfolding executeWithFallback_def c skipNode_eq [OF f] by simp
    from assms(2,3) show ?thesis
      using key [OF f] unfolding e by simp
  next
    case True
    obtain nodeOutcome calls0 where n: "callNode operation = (nodeOutcome, calls0)"
      by (cases "callNode operation")
    show ?thesis
    proof (cases nodeOutcome)
      case (Returns v)
      with assms(2) True show ?thesis
        by (simp add: executeWithFallback_def c n afterNode_def)
    next
      case (Throws nodeError)
      obtain r calls sources' where f: "fallbacks operation [''TronWeb: '' @ nodeError]
                  (''All sources failed for '' @ operationName @ '': '') nodeError
                 = (r, calls, sources')"
        by (metis prod_cases3)
      from True Throws have e: "executeWithFallback nodeAvailable pr operation operationName
          = \<lparr>response = rethrow operationName r, attempts = calls0 @ calls,
             recorded = sources', flag = Some False\<rparr>"
        unfolding executeWithFallback_def c n by (simp add: afterNode_Throws_eq [OF f])
      from assms(2,3) show ?thesis
        using key [OF f] unfolding e by simp
    qed
  qed
qed

text \<open>
  C2. Three requests overlap at the start of the process. The estimate and the first read
  both find the flag \<open>null\<close> and issue a probe. The estimate's probe returns, its primary
  thunk throws and the flag is set to \<open>false\<close>. Then the read's probe returns and
  \<open>this.nodeAvailable = responseTime < 5000\<close> sets the flag back to \<open>true\<close>; the third
  request, which enters after the failure, invokes its primary thunk.
\<close>

theorem latch_reopened_by_probe_in_flight:
  "fst (run [0, 1, 0, 0] startup) = Some False
   \<and> fst (run [0, 1, 0, 0, 1] startup) = Some True
   \<and> snd (snd (run [0, 1, 0, 0, 1, 1, 2, 2] startup) ! 2)
       = Done \<lparr>response = Returns (JObj [(''energy_price_sun'', JNum 210),
                                         (''source'', JStr ''tronweb_node'')]),
               attempts = [TronWeb], recorded = [], flag = Some True\<rparr>"
  by (simp add: startup_def estimate_call_def parameters_call_def prices_call_def
        resume_def enter_def afterNode_def skipNode_def fallbacks_def lastResort_def rethrow_def
        with_source_def)

text \<open>
  C3. Every candidate that was attempted failed, yet the error thrown does not contain the
  gateway's message: with no explorer candidate, the primary's error is rethrown as it
  is when the node was tried, and \<open>No fallback sources available\<close> is thrown when it was
  skipped. The \<open>sources\<close> array, which holds the gateway's message, is not used.
\<close>

theorem aggregate_drops_gateway_message:
  "response (executeWithFallback (Some True) (ProbeReturns 12)
      \<lparr>tronweb = Some (Throws ''node down''), trongrid = Some (Throws ''gateway 503''),
       tronscan = None\<rparr> ''getBlock'')
     = Throws ''getBlock failed: node down''
   \<and> attempts (executeWithFallback (Some True) (ProbeReturns 12)
      \<lparr>tronweb = Some (Throws ''node down''), trongrid = Some (Throws ''gateway 503''),
       tronscan = None\<rparr> ''getBlock'') = [TronWeb, TronGrid]
   \<and> \<not> str_includes ''getBlock failed: node down'' ''gateway 503''
   \<and> response (executeWithFallback (Some False) (ProbeReturns 12)
      \<lparr>tronweb = Some (Throws ''node down''), trongrid = Some (Throws ''gateway 503''),
       tronscan = None\<rparr> ''getBlock'')
     = Throws ''getBlock failed: No fallback sources available for getBlock''
   \<and> attempts (executeWithFallback (Some False) (ProbeReturns 12)
      \<lparr>tronweb = Some (Throws ''node down''), trongrid = Some (Throws ''gateway 503''),
       tronscan = None\<rparr> ''getBlock'') = [TronGrid]
   \<and> \<not> str_includes ''getBlock failed: No fallback sources available for getBlock'' ''gateway 503''"
  by (simp add: router_defs)

text \<open>
  C10, as stated. At a flag that is still \<open>null\<close> and a probe that throws, the prober
  sets the flag to \<open>false\<close>, the missing primary is not invoked, and no primary message
  is recorded. And the call does not disable the primary for the whole process: when a
  read without a \<open>tronweb\<close> thunk and another read both find the flag \<open>null\<close> and issue a
  probe, the first one's \<open>TypeError\<close> sets the flag to \<open>false\<close>, the other one's probe
  then sets it back to \<open>true\<close>, and a third request, which enters afterwards, invokes its
  primary thunk.
\<close>

theorem missing_primary_probe_fails_counterexample:
  "tronweb \<lparr>tronweb = None, trongrid = Some (Throws ''gateway 503''),
            tronscan = Some (Throws ''explorer 500'')\<rparr> = None
   \<and> (None :: bool option) \<noteq> Some False
   \<and> recorded (executeWithFallback None (ProbeThrows ''ECONNREFUSED'')
        \<lparr>tronweb = None, trongrid = Some (Throws ''gateway 503''),
         tronscan = Some (Throws ''explorer 500'')\<rparr> ''getBlock'')
       = [''TronGrid: gateway 503'', ''TronScan: explorer 500'']
   \<and> response (executeWithFallback None (ProbeThrows ''ECONNREFUSED'')
        \<lparr>tronweb = None, trongrid = Some (Throws ''gateway 503''),
         tronscan = Some (Throws ''explorer 500'')\<rparr> ''getBlock'')
       = Throws ''getBlock failed: All API sources failed for getBlock: TronGrid: gateway 503, TronScan: explorer 500''
   \<and> tronweb (fst (snd block_call)) = None
   \<and> snd (snd (run [0, 1, 0] overlap) ! 0)
       = Done \<lparr>response = Returns (JObj [(''blockID'', JStr ''0000''),
                                         (''source'', JStr ''trongrid_api'')]),
               attempts = [TronGrid],
               recorded = [''TronWeb: operation.tronweb is not a function''],
               flag = Some False\<rparr>
   \<and> fst (run [0, 1, 0] overlap) = Some False
   \<and> fst (run [0, 1, 0, 1] overlap) = Some True
   \<and> snd (snd (run [0, 1, 0, 1, 1, 2, 2] overlap) ! 2)
       = Done \<lparr>response = Returns (JObj [(''energy_price_sun'', JNum 210),
                                         (''source'', JStr ''tronweb_node'')]),
               attempts = [TronWeb], recorded = [], flag = Some True\<rparr>"
  by (simp add: overlap_def block_call_def parameters_call_def prices_call_def
        resume_def enter_def router_defs with_source_def NOT_A_FUNCTION_def)

text \<open>
  C10, amended. When \<open>checkNodeAvailability\<close> reports \<open>true\<close> (the flag is \<open>true\<close>, or it
  is \<open>null\<close> and the probe answers in under 5000 ms) and the candidate map has no
  \<open>tronweb\<close> thunk, the \<open>TypeError\<close> of the call is recorded as the primary's failure, the
  flag becomes \<open>false\<close> and no primary thunk runs. From then on the primary is disabled
  for the process, provided no other call is waiting for its probe at that moment: under
  every schedule of the calls in flight and to come the flag stays \<open>false\<close>, and every
  call that has not yet entered ends without invoking its primary thunk.
\<close>

theorem missing_primary_latches:
  assumes "nodeAvailable = Some True
           \<or> nodeAvailable = None \<and> pr = ProbeReturns responseTime \<and> responseTime < 5000"
    and "tronweb operation = None"
  shows "(\<exists>rest. recorded (executeWithFallback nodeAvailable pr operation operationName)
                  = (''TronWeb: '' @ NOT_A_FUNCTION) # rest)
       \<and> flag (executeWithFallback nodeAvailable pr operation operationName) = Some False
       \<and> TronWeb \<notin> set (attempts (executeWithFallback nodeAvailable pr operation operationName))
       \<and> TronWeb \<notin> set (attempts (executeWithFallback
              (flag (executeWithFallback nodeAvailable pr operation operationName))
              pr' operation' operationName'))
       \<and> ((\<forall>t \<in> set tasks. snd t \<noteq> AwaitProbe)
          \<longrightarrow> fst (run sched (flag (executeWithFallback nodeAvailable pr operation operationName),
                               tasks)) = Some False
            \<and> (\<forall>j < length tasks. snd (tasks ! j) = Entry
                  \<longrightarrow> skips_primary (snd (snd (run sched
                         (flag (executeWithFallback nodeAvailable pr operation operationName),
                          tasks)) ! j))))"
proof -
  have av: "checkNodeAvailability nodeAvailable pr = (True, Some True)"
    using assms(1) by (auto simp: checkNodeAvailability_def)
  have e: "executeWithFallback nodeAvailable pr operation operationName
             = afterNode (Some True) operation operationName (Throws NOT_A_FUNCTION) []"
    using assms(2) by (simp add: executeWithFallback_def av callNode_def)
  have r: "\<exists>rest. recorded (afterNode (Some True) operation operationName (Throws NOT_A_FUNCTION) [])
                  = (''TronWeb: '' @ NOT_A_FUNCTION) # rest"
    by (simp add: afterNode_def fallbacks_def lastResort_def split: option.splits outcome.splits)
  have f: "flag (afterNode (Some True) operation operationName (Throws NOT_A_FUNCTION) []) = Some False"
    by (simp add: afterNode_def split: prod.splits)
  have a: "TronWeb \<notin> set (attempts (afterNode (Some True) operation operationName (Throws NOT_A_FUNCTION) []))"
    by (simp add: afterNode_def fallbacks_def lastResort_def split: option.splits outcome.splits)
  have p: "(\<forall>t \<in> set tasks. snd t \<noteq> AwaitProbe)
          \<longrightarrow> fst (run sched (Some False, tasks)) = Some False
            \<and> (\<forall>j < length tasks. snd (tasks ! j) = Entry
                  \<longrightarrow> skips_primary (snd (snd (run sched (Some False, tasks)) ! j)))"
  proof (intro impI conjI allI)
    assume h: "\<forall>t \<in> set tasks. snd t \<noteq> AwaitProbe"
    then show "fst (run sched (Some False, tasks)) = Some False"
      by (rule latch_without_probe_in_flight)
    fix j
    assume "j < length tasks" and "snd (tasks ! j) = Entry"
    then show "skips_primary (snd (snd (run sched (Some False, tasks)) ! j))"
      using latch_permanent [OF h, of j sched] by simp
  qed
  show ?thesis
    unfolding e f using r a latch_execute p unfolding f by simp
qed

theorem missing_primary_latches_witness:
  "recorded (executeWithFallback (Some True) (ProbeReturns 7)
      \<lparr>tronweb = None, trongrid = Some (Returns (JObj [])), tronscan = None\<rparr> ''getBlock'')
     = [''TronWeb: operation.tronweb is not a function'']
   \<and> flag (executeWithFallback (Some True) (ProbeReturns 7)
      \<lparr>tronweb = None, trongrid = Some (Returns (JObj [])), tronscan = None\<rparr> ''getBlock'')
     = Some False
   \<and> run [0, 0] (flag (executeWithFallback (Some True) (ProbeReturns 7)
          \<lparr>tronweb = None, trongrid = Some (Returns (JObj [])), tronscan = None\<rparr> ''getBlock''),
        [(prices_call, Entry)])
     = (Some False,
        [(prices_call,
          Done \<lparr>response = Returns (JObj [(''energy_price_sun'', JNum 210),
                                          (''source'', JStr ''trongrid_api'')]),
                attempts = [TronGrid], recorded = [], flag = Some False\<rparr>)])
   \<and> skips_primary (snd (snd (run [0, 0] (flag (executeWithFallback (Some True) (ProbeReturns 7)
          \<lparr>tronweb = None, trongrid = Some (Returns (JObj [])), tronscan = None\<rparr> ''getBlock''),
        [(prices_call, Entry)])) ! 0))"
proof -
  let ?e = "executeWithFallback (Some True) (ProbeReturns 7)
      \<lparr>tronweb = None, trongrid = Some (Returns (JObj [])), tronscan = None\<rparr> ''getBlock''"
  have t: "\<forall>t \<in> set [(prices_call, Entry)]. snd t \<noteq> AwaitProbe" by simp
  have h1: "Some True = Some True
            \<or> Some True = None \<and> ProbeReturns 7 = ProbeReturns 7 \<and> (7 :: nat) < 5000" by simp
  have h2: "tronweb \<lparr>tronweb = None, trongrid = Some (Returns (JObj [])), tronscan = None\<rparr> = None"
    by simp
  note th = missing_primary_latches [OF h1 h2, where operationName = "''getBlock''"
      and tasks = "[(prices_call, Entry)]" and sched = "[0, 0]"]
  from th [THEN conjunct2, THEN conjunct2, THEN conjunct2, THEN conjunct2, THEN mp, OF t,
      THEN conjunct2]
  have "\<forall>j < length [(prices_call, Entry)]. snd ([(prices_call, Entry)] ! j) = Entry
          \<longrightarrow> skips_primary (snd (snd (run [0, 0] (flag ?e, [(prices_call, Entry)])) ! j))" .
  from this [THEN spec, of 0]
  have m: "skips_primary (snd (snd (run [0, 0] (flag ?e, [(prices_call, Entry)])) ! 0))"
    by simp
  have r: "recorded ?e = [''TronWeb: operation.tronweb is not a function'']"
    and f: "flag ?e = Some False"
    by (simp_all add: router_defs NOT_A_FUNCTION_def fallbacks_def lastResort_def)
  have u: "run [0, 0] (Some False, [(prices_call, Entry)])
     = (Some False,
        [(prices_call,
          Done \<lparr>response = Returns (JObj [(''energy_price_sun'', JNum 210),
                                          (''source'', JStr ''trongrid_api'')]),
                attempts = [TronGrid], recorded = [], flag = Some False\<rparr>)])"
    by (simp add: prices_call_def resume_def enter_def skipNode_def fallbacks_def
          lastResort_def rethrow_def with_source_def)
  from m r f u show ?thesis by (simp only: simp_thms)
qed

subsection \<open>Energy estimation\<close>




subsection \<open>Write operations\<close>

text \<open>
  C5, as stated. Both write operations pass an explorer candidate to the router, and when
  the node and the gateway fail that candidate is invoked.
\<close>

theorem write_candidates_include_explorer_counterexample:
  "tronscan (contractCall_operation backends_down ''transfer''
       [JStr ''TAHT3rrriD23a6AXmaM2YJRRvTYusKGVwD'', JNum 1000000])
     = Some (Throws ''TronScan API does not support contract calls - read-only API'')
   \<and> tronscan (sendTrx_operation backends_down)
     = Some (Throws ''TronScan API does not support transaction broadcasting - read-only API'')
   \<and> attempts (contractCall backends_down (Some True) (ProbeReturns 12)
        ''TR7NHqjeKQxGTCi8q8ZY4pL8otSzgjLj6t'' ''transfer''
        [JStr ''TAHT3rrriD23a6AXmaM2YJRRvTYusKGVwD'', JNum 1000000] None)
     = [TronWeb, TronGrid, TronScan]
   \<and> attempts (sendTrx backends_down True (Some True) (ProbeReturns 12)
        ''TAHT3rrriD23a6AXmaM2YJRRvTYusKGVwD'' (JNum 5) None ''2025-01-01T00:00:00.000Z'')
     = [TronWeb, TronGrid, TronScan]"
  by (simp add: contractCall_operation_def sendTrx_operation_def contractCall_def sendTrx_def
        gateway_call_def backends_down_def CONTRACT_READ_ONLY_def BROADCAST_READ_ONLY_def
        router_defs provided_def)

text \<open>
  C5, amended. The explorer candidate of a contract call and of a TRX transfer is a thunk
  that always throws a fixed \<open>read-only API\<close> message and makes no request; a write that
  returns was therefore answered by the node or by the gateway.
\<close>

theorem write_explorer_always_refuses:
  "tronscan (contractCall_operation env functionName parameters) = Some (Throws CONTRACT_READ_ONLY)
   \<and> tronscan (sendTrx_operation env) = Some (Throws BROADCAST_READ_ONLY)
   \<and> (response (contractCall env nodeAvailable pr contractAddress functionName parameters feeLimit)
         = Returns v
      \<longrightarrow> get_field ''source'' v = Some (JStr ''tronweb_node'')
          \<or> get_field ''source'' v = Some (JStr ''trongrid_api''))
   \<and> (response (sendTrx env keyConfigured nodeAvailable pr to amount privateKey timestamp)
         = Returns w
      \<longrightarrow> get_field ''source'' w = Some (JStr ''tronweb_node'')
          \<or> get_field ''source'' w = Some (JStr ''trongrid_api''))"
proof (intro conjI impI)
  show "tronscan (contractCall_operation env functionName parameters)
          = Some (Throws CONTRACT_READ_ONLY)"
    by (simp add: contractCall_operation_def)
  show s: "tronscan (sendTrx_operation env) = Some (Throws BROADCAST_READ_ONLY)"
    by (simp add: sendTrx_operation_def)
next
  let ?e = "executeWithFallback nodeAvailable pr
              (contractCall_operation env functionName parameters) ''contractCall''"
  assume "response (contractCall env nodeAvailable pr contractAddress functionName parameters
            feeLimit) = Returns v"
  then obtain r parameters' where r: "response ?e = Returns r"
    and v: "v = spread_with r [(''contractAddress'', JStr contractAddress),
                     (''functionName'', JStr functionName),
                     (''parameters'', JArr parameters'),
                     (''feeLimit'', JNum (feeLimit_or_default feeLimit))]"
    by (cases "response ?e") (auto simp: contractCall_def Let_def)
  have "tronscan (contractCall_operation env functionName parameters)
          = Some (Throws CONTRACT_READ_ONLY)"
    by (simp add: contractCall_operation_def)
  from explorer_refuses_source [OF this r]
  obtain result tag where "r = with_source result tag"
    and "tag = ''tronweb_node'' \<or> tag = ''trongrid_api''" by blast
  then show "get_field ''source'' v = Some (JStr ''tronweb_node'')
          \<or> get_field ''source'' v = Some (JStr ''trongrid_api'')"
    unfolding v by (auto simp: source_spread_with)
next
  let ?e = "executeWithFallback nodeAvailable pr (sendTrx_operation env) ''sendTrx''"
  assume "response (sendTrx env keyConfigured nodeAvailable pr to amount privateKey timestamp)
            = Returns w"
  then obtain r where r: "response ?e = Returns r"
    and w: "w = spread_with r [(''to'', JStr to), (''amount'', amount),
                        (''timestamp'', JStr timestamp)]"
    by (cases "response ?e") (simp_all add: sendTrx_def Let_def split: if_splits)
  have "tronscan (sendTrx_operation env) = Some (Throws BROADCAST_READ_ONLY)"
    by (simp add: sendTrx_operation_def)
  from explorer_refuses_source [OF this r]
  obtain result tag where "r = with_source result tag"
    and "tag = ''tronweb_node'' \<or> tag = ''trongrid_api''" by blast
  then show "get_field ''source'' w = Some (JStr ''tronweb_node'')
          \<or> get_field ''source'' w = Some (JStr ''trongrid_api'')"
    unfolding w by (auto simp: source_spread_with)
qed

theorem write_explorer_always_refuses_witness:
  "response (sendTrx (backends_down\<lparr>gateway_write := (\<lambda>endpoint. Returns (JObj [(''txid'', JStr ''7f3a'')]))\<rparr>)
       True (Some True) (ProbeReturns 12) ''TAHT3rrriD23a6AXmaM2YJRRvTYusKGVwD'' (JNum 5) None
       ''2025-01-01T00:00:00.000Z'')
     = Returns (JObj [(''txid'', JStr ''7f3a''), (''source'', JStr ''trongrid_api''),
                      (''to'', JStr ''TAHT3rrriD23a6AXmaM2YJRRvTYusKGVwD''), (''amount'', JNum 5),
                      (''timestamp'', JStr ''2025-01-01T00:00:00.000Z'')])
   \<and> get_field ''source'' (JObj [(''txid'', JStr ''7f3a''), (''source'', JStr ''trongrid_api''),
                      (''to'', JStr ''TAHT3rrriD23a6AXmaM2YJRRvTYusKGVwD''), (''amount'', JNum 5),
                      (''timestamp'', JStr ''2025-01-01T00:00:00.000Z'')])
       = Some (JStr ''trongrid_api'')"
proof -
  let ?env = "backends_down\<lparr>gateway_write := (\<lambda>endpoint. Returns (JObj [(''txid'', JStr ''7f3a'')]))\<rparr>"
  let ?w = "JObj [(''txid'', JStr ''7f3a''), (''source'', JStr ''trongrid_api''),
                      (''to'', JStr ''TAHT3rrriD23a6AXmaM2YJRRvTYusKGVwD''), (''amount'', JNum 5),
                      (''timestamp'', JStr ''2025-01-01T00:00:00.000Z'')]"
  have r: "response (sendTrx ?env True (Some True) (ProbeReturns 12)
       ''TAHT3rrriD23a6AXmaM2YJRRvTYusKGVwD'' (JNum 5) None ''2025-01-01T00:00:00.000Z'') = Returns ?w"
    by (simp add: sendTrx_def sendTrx_operation_def backends_down_def router_defs provided_def
          spread_with_def with_source_def)
  from write_explorer_always_refuses [where env = ?env and keyConfigured = True
      and nodeAvailable = "Some True" and pr = "ProbeReturns 12"
      and to = "''TAHT3rrriD23a6AXmaM2YJRRvTYusKGVwD''" and amount = "JNum 5"
      and privateKey = None and timestamp = "''2025-01-01T00:00:00.000Z''" and w = ?w,
      THEN conjunct2, THEN conjunct2, THEN conjunct2, THEN mp, OF r]
  have "get_field ''source'' ?w = Some (JStr ''tronweb_node'')
          \<or> get_field ''source'' ?w = Some (JStr ''trongrid_api'')" .
  then have "get_field ''source'' ?w = Some (JStr ''trongrid_api'')"
    by (simp add: get_field_def)
  with r show ?thesis by simp
qed

subsection \<open>Address validation\<close>

text \<open>
  C8, as stated. \<open>getBalance\<close> hands a malformed address to the node and, when the node
  rejects it, to the gateway, which answers. The estimator does reject a malformed contract
  address, but inside the primary thunk: the router records the rejection as a primary
  failure, sets the flag to \<open>false\<close> and invokes the gateway thunk.
\<close>

theorem malformed_address_reaches_backends_counterexample:
  "\<not> address_shape ''not-an-address''
   \<and> getBalance lenient_backends ''not-an-address''
     = (Returns \<lparr>address = ''not-an-address'', balance = Number 0, unit = ''TRX'',
                 balanceInSun = 0, source = ''trongrid_api''\<rparr>,
        [TronWeb, TronGrid])
   \<and> tronweb_estimate warm_start ''not-an-address'' ''transfer'' [] None
     = Throws ''Energy estimation failed: Invalid contract address: not-an-address''
   \<and> attempts (estimateContractEnergy warm_start (Some True) (ProbeReturns 12)
        ''not-an-address'' ''transfer'' [] None) = [TronWeb, TronGrid]
   \<and> flag (estimateContractEnergy warm_start (Some True) (ProbeReturns 12)
        ''not-an-address'' ''transfer'' [] None) = Some False
   \<and> map_option (path [''source''])
       (returned (response (estimateContractEnergy warm_start (Some True) (ProbeReturns 12)
        ''not-an-address'' ''transfer'' [] None))) = Some (Some (JStr ''trongrid_api''))"
proof -
  have a: "\<not> address_shape ''not-an-address''"
    by (simp add: address_shape_def)
  have b: "getBalance lenient_backends ''not-an-address''
     = (Returns \<lparr>address = ''not-an-address'', balance = Number 0, unit = ''TRX'',
                 balanceInSun = 0, source = ''trongrid_api''\<rparr>,
        [TronWeb, TronGrid])"
    by (simp add: getBalance_def lenient_backends_def address_shape_def balance_or_zero_def)
  have c: "tronweb_estimate warm_start ''not-an-address'' ''transfer'' [] None
     = Throws ''Energy estimation failed: Invalid contract address: not-an-address''"
    by (simp add: tronweb_estimate_def warm_start_def shape_estimator_def
          estimator_estimateContractEnergy_def address_shape_def)
  obtain g where g: "trongrid_estimate warm_start ''not-an-address'' ''transfer'' [] None
                       = Returns g"
    using trongrid_estimate_returns by blast
  have e: "executeWithFallback (Some True) (ProbeReturns 12)
             (estimate_operation warm_start ''not-an-address'' ''transfer'' [] None)
             ''estimateContractEnergy''
           = \<lparr>response = Returns (with_source g ''trongrid_api''),
              attempts = [TronWeb, TronGrid],
              recorded = [''TronWeb: Energy estimation failed: Invalid contract address: not-an-address''],
              flag = Some False\<rparr>"
    by (simp add: estimate_operation_def c g router_defs)
  show ?thesis
    using a b c
    by (simp add: estimateContractEnergy_def e failed_to_def returned_def source_with_source)
qed

text \<open>
  C8, amended. \<open>EnergyEstimator.estimateContractEnergy\<close> rejects a contract address that
  \<open>isAddress\<close> refuses before it makes any network request, with the message
  \<open>Energy estimation failed: Invalid contract address: <address>\<close>, and leaves its
  contract cache as it was.
\<close>

theorem estimator_rejects_invalid_address:
  assumes "\<not> isAddress est contractAddress"
  shows "estimator_estimateContractEnergy est contractAddress functionName parameters callerAddress
             timestamp
           = (Throws (''Energy estimation failed: Invalid contract address: '' @ contractAddress),
              [], contractCache est)"
  using assms by (simp add: estimator_estimateContractEnergy_def)

theorem estimator_rejects_invalid_address_witness:
  "\<not> isAddress shape_estimator ''not-an-address''
   \<and> estimator_estimateContractEnergy shape_estimator ''not-an-address'' ''transfer'' [] None
        ''2025-01-01T00:00:00.000Z''
     = (Throws ''Energy estimation failed: Invalid contract address: not-an-address'', [], [])"
proof -
  have h: "\<not> isAddress shape_estimator ''not-an-address''"
    by (simp add: shape_estimator_def address_shape_def)
  from estimator_rejects_invalid_address [OF h, of "''transfer''" "[]" None
      "''2025-01-01T00:00:00.000Z''"] h
  show ?thesis by (simp add: shape_estimator_def)
qed

subsection \<open>Balance conversion\<close>




subsection \<open>The heuristic\<close>

text \<open>
  C6. \<open>getFallbackEnergyEstimate\<close> is the three-stage lookup of the specification, in
  that order: the known-contract constants (28000 for a transfer to the new address,
  13940 otherwise, so the new-address constant is twice the other plus 120), then the
  name patterns, and for an input that matches neither exactly
  \<open>20000 + 5000 * parameters.length\<close>.
\<close>

theorem fallback_precedence:
  "getFallbackEnergyEstimate functionName parameters contractAddress toAddress
     = fallbackEstimate_spec functionName parameters contractAddress toAddress
   \<and> (known_contract_estimate contractAddress (toLowerCase functionName) toAddress = None
        \<and> pattern_estimate (toLowerCase functionName) = None
      \<longrightarrow> getFallbackEnergyEstimate functionName parameters contractAddress toAddress
            = 20000 + 5000 * int (length parameters))
   \<and> getFallbackEnergyEstimate ''transfer'' parameters USDT_CONTRACT (JStr NEW_ADDRESS)
     = 2 * getFallbackEnergyEstimate ''transfer'' parameters USDT_CONTRACT (JStr EXISTING_ADDRESS) + 120"
proof -
  have eq: "getFallbackEnergyEstimate functionName parameters contractAddress toAddress
     = fallbackEstimate_spec functionName parameters contractAddress toAddress"
    by (auto simp: heuristic_defs Let_def NEW_ADDRESS_def EXISTING_ADDRESS_def)
  have new: "getFallbackEnergyEstimate ''transfer'' parameters USDT_CONTRACT (JStr NEW_ADDRESS) = 28000"
    by (simp add: getFallbackEnergyEstimate_def toLowerCase_def toLowerChar_def NEW_ADDRESS_def)
  have old: "getFallbackEnergyEstimate ''transfer'' parameters USDT_CONTRACT (JStr EXISTING_ADDRESS) = 13940"
    by (simp add: getFallbackEnergyEstimate_def toLowerCase_def toLowerChar_def
          NEW_ADDRESS_def EXISTING_ADDRESS_def)
  show ?thesis
    unfolding new old using eq by (simp add: fallbackEstimate_spec_def)
qed

theorem fallback_precedence_witness:
  "known_contract_estimate ''TXYZ'' (toLowerCase ''stake'') JNull = None
   \<and> pattern_estimate (toLowerCase ''stake'') = None
   \<and> getFallbackEnergyEstimate ''stake'' [JNum 1, JNum 2] ''TXYZ'' JNull = 30000"
  using fallback_precedence [of "''stake''" "[JNum 1, JNum 2]" "''TXYZ''" JNull]
  by (simp add: known_contract_estimate_def pattern_estimate_def pattern_table_def
        toLowerCase_def toLowerChar_def USDT_CONTRACT_def)

text \<open>
  C7, as stated. The handler passes the arguments on unchecked, and
  \<open>getFallbackEnergyEstimate\<close> throws a \<open>TypeError\<close> when the function name is \<open>null\<close> or
  a number, and when the parameters are \<open>null\<close> and no constant applies; with \<open>null\<close>
  parameters and a name that matches a pattern it returns.
\<close>

theorem fallback_throws_counterexample:
  "getFallbackEnergyEstimate_js JNull (Some [JNum 1]) ''TLa2f6VPqDgRE67v1736s7bJ8Ray5wYjU7'' JNull
     = Throws (cannot_read ''toLowerCase'')
   \<and> getFallbackEnergyEstimate_js (JNum 7) (Some []) ''TLa2f6VPqDgRE67v1736s7bJ8Ray5wYjU7'' JNull
     = Throws ''functionName.toLowerCase is not a function''
   \<and> getFallbackEnergyEstimate_js (JStr ''stake'') None ''TLa2f6VPqDgRE67v1736s7bJ8Ray5wYjU7''
        JNull
     = Throws (cannot_read ''length'')
   \<and> getFallbackEnergyEstimate_js (JStr ''mintTo'') None ''TLa2f6VPqDgRE67v1736s7bJ8Ray5wYjU7''
        JNull
     = Returns 30000"
  by (simp add: getFallbackEnergyEstimate_js_def toLowerCase_error_def toLowerCase_def
        toLowerChar_def USDT_CONTRACT_def)

text \<open>
  C7, amended. \<open>getFallbackEnergyEstimate\<close> is a function of its four arguments alone
  (it reads no state and calls no backend). On a string for the function name and an
  array for the parameters it returns an integer, one of ten constants or the
  parameter-count default, and of the parameters only their number matters. With \<open>null\<close>
  for the parameters it returns the constant when one applies and throws a \<open>TypeError\<close>
  otherwise; with a function name that is not a string it throws a \<open>TypeError\<close>.
\<close>

theorem fallback_total_on_typed_arguments:
  "getFallbackEnergyEstimate_js (JStr functionName) (Some parameters) contractAddress toAddress
     = Returns (getFallbackEnergyEstimate functionName parameters contractAddress toAddress)
   \<and> getFallbackEnergyEstimate functionName parameters contractAddress toAddress
       \<in> {28000, 13940, 13180, 18190, 680, 14010, 10000, 50000, 30000, 1000,
           20000 + 5000 * int (length parameters)}
   \<and> 680 \<le> getFallbackEnergyEstimate functionName parameters contractAddress toAddress
   \<and> (length parameters' = length parameters
      \<longrightarrow> getFallbackEnergyEstimate_js (JStr functionName) (Some parameters') contractAddress
            toAddress
          = getFallbackEnergyEstimate_js (JStr functionName) (Some parameters) contractAddress
            toAddress)
   \<and> getFallbackEnergyEstimate_js (JStr functionName) None contractAddress toAddress
       = (if known_contract_estimate contractAddress (toLowerCase functionName) toAddress = None
             \<and> pattern_estimate (toLowerCase functionName) = None
          then Throws (cannot_read ''length'')
          else Returns (getFallbackEnergyEstimate functionName [] contractAddress toAddress))
   \<and> ((\<forall>name. v \<noteq> JStr name)
      \<longrightarrow> getFallbackEnergyEstimate_js v ps contractAddress toAddress
          = Throws (toLowerCase_error v))"
proof (intro conjI impI)
  show "getFallbackEnergyEstimate_js (JStr functionName) (Some parameters) contractAddress toAddress
     = Returns (getFallbackEnergyEstimate functionName parameters contractAddress toAddress)"
    by (simp add: getFallbackEnergyEstimate_js_def getFallbackEnergyEstimate_def Let_def)
  show "getFallbackEnergyEstimate functionName parameters contractAddress toAddress
       \<in> {28000, 13940, 13180, 18190, 680, 14010, 10000, 50000, 30000, 1000,
           20000 + 5000 * int (length parameters)}"
    by (simp add: getFallbackEnergyEstimate_def Let_def)
  show "680 \<le> getFallbackEnergyEstimate functionName parameters contractAddress toAddress"
    by (simp add: getFallbackEnergyEstimate_def Let_def)
  show "getFallbackEnergyEstimate_js (JStr functionName) (Some parameters') contractAddress
            toAddress
          = getFallbackEnergyEstimate_js (JStr functionName) (Some parameters) contractAddress
            toAddress"
    if "length parameters' = length parameters"
    using that by (simp add: getFallbackEnergyEstimate_js_def Let_def)
  show "getFallbackEnergyEstimate_js (JStr functionName) None contractAddress toAddress
       = (if known_contract_estimate contractAddress (toLowerCase functionName) toAddress = None
             \<and> pattern_estimate (toLowerCase functionName) = None
          then Throws (cannot_read ''length'')
          else Returns (getFallbackEnergyEstimate functionName [] contractAddress toAddress))"
    by (simp add: getFallbackEnergyEstimate_js_def getFallbackEnergyEstimate_def Let_def
          known_contract_estimate_def pattern_estimate_def pattern_table_def)
  show "getFallbackEnergyEstimate_js v ps contractAddress toAddress = Throws (toLowerCase_error v)"
    if "\<forall>name. v \<noteq> JStr name"
    using that by (cases v) (simp_all add: getFallbackEnergyEstimate_js_def)
qed

theorem fallback_total_on_typed_arguments_witness:
  "length [JStr ''a''] = length [JNum 7]
   \<and> getFallbackEnergyEstimate_js (JStr ''mintTo'') (Some [JStr ''a'']) ''TXYZ'' JNull
     = getFallbackEnergyEstimate_js (JStr ''mintTo'') (Some [JNum 7]) ''TXYZ'' JNull
   \<and> getFallbackEnergyEstimate_js (JStr ''mintTo'') (Some [JNum 7]) ''TXYZ'' JNull = Returns 30000
   \<and> (\<forall>name. JBool True \<noteq> JStr name)
   \<and> getFallbackEnergyEstimate_js (JBool True) None ''TXYZ'' JNull
     = Throws ''functionName.toLowerCase is not a function''"
proof -
  note th = fallback_total_on_typed_arguments [where functionName = "''mintTo''"
      and parameters = "[JNum 7]" and parameters' = "[JStr ''a'']" and contractAddress = "''TXYZ''"
      and toAddress = JNull and v = "JBool True" and ps = None]
  have l: "length [JStr ''a''] = length [JNum 7]" by simp
  have n: "\<forall>name. JBool True \<noteq> JStr name" by simp
  from th [THEN conjunct2, THEN conjunct2, THEN conjunct2, THEN conjunct1, THEN mp, OF l]
  have a: "getFallbackEnergyEstimate_js (JStr ''mintTo'') (Some [JStr ''a'']) ''TXYZ'' JNull
     = getFallbackEnergyEstimate_js (JStr ''mintTo'') (Some [JNum 7]) ''TXYZ'' JNull" .
  from th [THEN conjunct1]
  have b: "getFallbackEnergyEstimate_js (JStr ''mintTo'') (Some [JNum 7]) ''TXYZ'' JNull = Returns 30000"
    by (simp add: getFallbackEnergyEstimate_def toLowerCase_def toLowerChar_def USDT_CONTRACT_def)
  from th [THEN conjunct2, THEN conjunct2, THEN conjunct2, THEN conjunct2, THEN conjunct2,
      THEN mp, OF n]
  have c: "getFallbackEnergyEstimate_js (JBool True) None ''TXYZ'' JNull
     = Throws ''functionName.toLowerCase is not a function''"
    by (simp add: toLowerCase_error_def)
  from l a b n c show ?thesis by (intro conjI)
qed


end
